theory Spec2Isabelle
  imports Complex_Main "HOL-Library.Sublist" "HOL-Library.Multiset"
begin

section \<open>NX Projects Tracker: the Presenter\<close>

text \<open>
  The repository holds the browser application class \<open>NXProjectsTracker\<close> twice: a
  paginated variant (\<open>src/webapp/README.md\<close>, lines 179 to 994, the text of the application
  script) and a variant without pagination (\<open>src/unnamed/part_001\<close>). The methods
  \<open>loadProjects\<close>, \<open>filterProjects\<close>, \<open>updateStats\<close> and \<open>formatNumber\<close> are the same text in
  both. Where the two differ (\<open>renderProjects\<close>, \<open>filterAndRender\<close>) the paginated variant
  keeps the plain name and the other one carries the suffix \<open>_unpaged\<close>.
  \<open>NumberUtils.format\<close> is taken from \<open>src/webapp/js/utils.js\<close>.
\<close>

subsection \<open>Data model\<close>

text \<open>
  One entry of \<open>projects.json\<close>, with the fields of the output format. A field that the
  collector may leave \<open>null\<close> or absent is an option; \<open>None\<close> stands for both, since the
  Presenter only tests such a field for truthiness or strict equality with a string.
\<close>

record project =
  name :: string
  author :: string
  authorAvatar :: string
  authorUrl :: string
  projectUrl :: string
  projectFullUrl :: string
  description :: "string option"
  language :: "string option"
  stars :: int
  forks :: int
  lastUpdated :: string
  createdAt :: string
  latestVersion :: "string option"
  latestReleaseUrl :: "string option"
  latestReleaseDate :: "string option"
  requiredFirmware :: string

text \<open>\<open>this.currentFilters\<close>.\<close>

record filters =
  search :: string
  language :: string
  sortBy :: string

text \<open>
  The parts of the page the modelled methods write. The grid is represented by the list of
  records whose cards it holds, in order; the markup of a card, of the messages and of the
  page buttons is not modelled. A \<open>style.display\<close> is the string assigned to it.
  \<open>statistics_writes\<close> is not an element: it counts how often the four statistics
  elements have been assigned, so that an assignment of the text an element already holds
  can be told from no assignment.
\<close>

record document =
  projects_grid :: "project list"
  no_results_display :: string
  no_results_message :: string
  error_state_display :: string
  error_message :: string
  main_display :: string
  clear_search_display :: string
  pagination_display :: string
  pagination_info :: "int \<times> int \<times> int"
  pagination_prev_disabled :: bool
  pagination_next_disabled :: bool
  total_projects :: string
  total_stars :: string
  total_forks :: string
  total_languages :: nat
  statistics_writes :: nat

text \<open>
  The object state. The variant without pagination has no \<open>currentPage\<close>,
  \<open>itemsPerPage\<close> and \<open>totalPages\<close>; its methods leave these three fields alone.
\<close>

record app =
  projects :: "project list"
  filteredProjects :: "project list"
  currentFilters :: filters
  currentPage :: int
  itemsPerPage :: int
  totalPages :: int
  page :: document

text \<open>
  What the JavaScript engine supplies and the repository does not define: the locale
  collation, the time value of \<open>new Date(s)\<close> (\<open>None\<close> is an invalid date, whose
  difference is \<open>NaN\<close>), floating-point division and the two number-to-string conversions.
  The model takes them as parameters, so every theorem below holds for any engine.
\<close>

record host =
  localeCompare :: "string \<Rightarrow> string \<Rightarrow> int"
  Date_getTime :: "string \<Rightarrow> int option"
  Number_divide :: "real \<Rightarrow> real \<Rightarrow> real"
  toFixed :: "real \<Rightarrow> nat \<Rightarrow> string"
  Number_toString :: "real \<Rightarrow> string"

subsection \<open>Strings\<close>

text \<open>
  A JavaScript string is a sequence of UTF-16 code units; the model covers the strings
  whose code units are below 256, one \<open>char\<close> each. On these \<open>toLowerCase\<close> maps
  \<open>A\<close> to \<open>Z\<close> and the capital letters U+00C0 to U+00DE (without the sign U+00D7) 32
  places up and leaves every other code unit alone.
\<close>

definition toLowerCase_char :: "char \<Rightarrow> char" where
  "toLowerCase_char c =
     (let n = (of_char c :: nat)
      in if (65 \<le> n \<and> n \<le> 90) \<or> (192 \<le> n \<and> n \<le> 222 \<and> n \<noteq> 215)
         then char_of (n + 32) else c)"

definition toLowerCase :: "string \<Rightarrow> string" where
  "toLowerCase s = map toLowerCase_char s"

text \<open>\<open>s.includes(t)\<close>: does \<open>t\<close> start at some position of \<open>s\<close>.\<close>

fun String_includes :: "string \<Rightarrow> string \<Rightarrow> bool" where
  "String_includes [] t = (t = [])"
| "String_includes (c # cs) t = (prefix t (c # cs) \<or> String_includes cs t)"

text \<open>The truthiness of a string-or-null value: neither absent nor empty.\<close>

fun truthy :: "string option \<Rightarrow> bool" where
  "truthy None = False"
| "truthy (Some s) = (s \<noteq> [])"

subsection \<open>Sorting\<close>

text \<open>
  \<open>Array.prototype.sort\<close> with a comparator. A comparator result \<open>None\<close> is \<open>NaN\<close>,
  which the sort reads as \<open>+0\<close>. The language fixes that the sort is stable and leaves the
  algorithm to the engine; the model is the stable insertion sort, which for a comparator
  that compares a key is the one result every conforming engine produces.
\<close>

definition SortCompare :: "('a \<Rightarrow> 'a \<Rightarrow> int option) \<Rightarrow> 'a \<Rightarrow> 'a \<Rightarrow> int" where
  "SortCompare cmp x y = (case cmp x y of None \<Rightarrow> 0 | Some v \<Rightarrow> v)"

fun insertBy :: "('a \<Rightarrow> 'a \<Rightarrow> int option) \<Rightarrow> 'a \<Rightarrow> 'a list \<Rightarrow> 'a list" where
  "insertBy cmp x [] = [x]"
| "insertBy cmp x (y # ys) =
     (if SortCompare cmp x y \<le> 0 then x # y # ys else y # insertBy cmp x ys)"

definition Array_sort :: "('a \<Rightarrow> 'a \<Rightarrow> int option) \<Rightarrow> 'a list \<Rightarrow> 'a list" where
  "Array_sort cmp xs = foldr (insertBy cmp) xs []"

subsection \<open>filterProjects\<close>

text \<open>The arrow function of the search filter, with \<open>searchTerm\<close> already lowercased.\<close>

definition matchesSearch :: "string \<Rightarrow> project \<Rightarrow> bool" where
  "matchesSearch searchTerm project =
     (String_includes (toLowerCase (name project)) searchTerm \<or>
      String_includes (toLowerCase (author project)) searchTerm \<or>
      (case description project of
         None \<Rightarrow> False
       | Some d \<Rightarrow> d \<noteq> [] \<and> String_includes (toLowerCase d) searchTerm))"

text \<open>\<open>new Date(x) - new Date(y)\<close>.\<close>

definition Date_minus :: "host \<Rightarrow> string \<Rightarrow> string \<Rightarrow> int option" where
  "Date_minus H x y =
     (case Date_getTime H x of
        None \<Rightarrow> None
      | Some a \<Rightarrow> (case Date_getTime H y of None \<Rightarrow> None | Some b \<Rightarrow> Some (a - b)))"

text \<open>The comparator handed to \<open>sort\<close>: the \<open>switch\<close> on \<open>this.currentFilters.sortBy\<close>.\<close>

definition compareProjects :: "host \<Rightarrow> string \<Rightarrow> project \<Rightarrow> project \<Rightarrow> int option" where
  "compareProjects H key a b =
     (if key = ''stars'' then Some (stars b - stars a)
      else if key = ''forks'' then Some (forks b - forks a)
      else if key = ''name'' then Some (localeCompare H (name a) (name b))
      else if key = ''author'' then Some (localeCompare H (author a) (author b))
      else if key = ''latest'' then Date_minus H (lastUpdated b) (lastUpdated a)
      else if key = ''created'' then Date_minus H (createdAt b) (createdAt a)
      else Some (stars b - stars a))"

definition filterProjects :: "host \<Rightarrow> app \<Rightarrow> app" where
  "filterProjects H this =
     (let filtered = projects this;
          filtered =
            (if search (currentFilters this) \<noteq> [] then
               (let searchTerm = toLowerCase (search (currentFilters this))
                in filter (matchesSearch searchTerm) filtered)
             else filtered);
          filtered =
            (if filters.language (currentFilters this) \<noteq> ''all'' then
               filter (\<lambda>project. project.language project =
                                   Some (filters.language (currentFilters this))) filtered
             else filtered);
          filtered = Array_sort (compareProjects H (sortBy (currentFilters this))) filtered
      in this\<lparr>filteredProjects := filtered\<rparr>)"

subsection \<open>Number formatting\<close>

text \<open>\<open>NXProjectsTracker.formatNumber\<close>.\<close>

definition formatNumber :: "host \<Rightarrow> real \<Rightarrow> string" where
  "formatNumber H num =
     (if num \<ge> 1000000 then toFixed H (Number_divide H num 1000000) 1 @ ''M''
      else if num \<ge> 1000 then toFixed H (Number_divide H num 1000) 1 @ ''K''
      else Number_toString H num)"

text \<open>
  \<open>NumberUtils.format\<close>. The first argument is \<open>None\<close> for \<open>null\<close> and \<open>undefined\<close>; the
  second is \<open>None\<close> when the caller leaves it out, and then defaults to 1.
\<close>

definition NumberUtils_format :: "host \<Rightarrow> real option \<Rightarrow> nat option \<Rightarrow> string" where
  "NumberUtils_format H num decimals_arg =
     (let decimals = (case decimals_arg of None \<Rightarrow> 1 | Some d \<Rightarrow> d)
      in case num of
           None \<Rightarrow> ''0''
         | Some num \<Rightarrow>
             (if num \<ge> 1000000000 then toFixed H (Number_divide H num 1000000000) decimals @ ''B''
              else if num \<ge> 1000000 then toFixed H (Number_divide H num 1000000) decimals @ ''M''
              else if num \<ge> 1000 then toFixed H (Number_divide H num 1000) decimals @ ''K''
              else Number_toString H num))"

subsection \<open>Statistics\<close>

text \<open>\<open>[...new Set(xs)]\<close>: the distinct values in the order of their first occurrence.\<close>

definition Set_values :: "'a list \<Rightarrow> 'a list" where
  "Set_values xs = foldl (\<lambda>acc x. if x \<in> set acc then acc else acc @ [x]) [] xs"

definition updateStats :: "host \<Rightarrow> app \<Rightarrow> app" where
  "updateStats H this =
     (let totalProjects = int (length (projects this));
          totalStars = foldl (\<lambda>sum project. sum + stars project) 0 (projects this);
          totalForks = foldl (\<lambda>sum project. sum + forks project) 0 (projects this);
          languages = Set_values (filter truthy (map project.language (projects this)))
      in this\<lparr>page := (page this)
           \<lparr>total_projects := formatNumber H (real_of_int totalProjects),
            total_stars := formatNumber H (real_of_int totalStars),
            total_forks := formatNumber H (real_of_int totalForks),
            total_languages := length languages,
            statistics_writes := Suc (statistics_writes (page this))\<rparr>\<rparr>)"

subsection \<open>Rendering and pagination\<close>

text \<open>\<open>xs.slice(start, stop)\<close>, with JavaScript's reading of negative and oversized indices.\<close>

definition Array_slice :: "int \<Rightarrow> int \<Rightarrow> 'a list \<Rightarrow> 'a list" where
  "Array_slice start stop xs =
     (let len = int (length xs);
          k = (if start < 0 then max (len + start) 0 else min start len);
          final = (if stop < 0 then max (len + stop) 0 else min stop len)
      in take (nat (final - k)) (drop (nat k) xs))"

text \<open>\<open>Math.ceil(a / b)\<close> on two integers.\<close>

definition Math_ceil_div :: "int \<Rightarrow> int \<Rightarrow> int" where
  "Math_ceil_div a b = \<lceil>real_of_int a / real_of_int b\<rceil>"

text \<open>\<open>renderProjects\<close> of the paginated variant.\<close>

definition renderProjects :: "host \<Rightarrow> app \<Rightarrow> app" where
  "renderProjects H this =
     (if length (projects this) = 0 then
        this\<lparr>page := (page this)
          \<lparr>projects_grid := [], no_results_display := ''none'', error_state_display := ''block''\<rparr>\<rparr>
      else if length (filteredProjects this) = 0 then
        this\<lparr>page := (page this)
          \<lparr>projects_grid := [], no_results_display := ''block'', error_state_display := ''none''\<rparr>\<rparr>
      else
        (let startIndex = (currentPage this - 1) * itemsPerPage this;
             endIndex = startIndex + itemsPerPage this;
             projectsToShow = Array_slice startIndex endIndex (filteredProjects this)
         in updateStats H
              (this\<lparr>page := (page this)
                 \<lparr>no_results_display := ''none'', error_state_display := ''none'',
                  projects_grid := projectsToShow\<rparr>\<rparr>)))"

text \<open>\<open>renderProjects\<close> of the variant without pagination.\<close>

definition renderProjects_unpaged :: "app \<Rightarrow> app" where
  "renderProjects_unpaged this =
     (if length (projects this) = 0 then
        this\<lparr>page := (page this)
          \<lparr>projects_grid := [], no_results_display := ''block'',
           no_results_message := ''No project data available''\<rparr>\<rparr>
      else if length (filteredProjects this) = 0 then
        this\<lparr>page := (page this)
          \<lparr>projects_grid := [], no_results_display := ''block'',
           no_results_message := ''No projects found''\<rparr>\<rparr>
      else
        this\<lparr>page := (page this)
          \<lparr>no_results_display := ''none'', projects_grid := filteredProjects this\<rparr>\<rparr>)"

text \<open>
  \<open>renderPagination\<close>. The page buttons written by \<open>generatePageNumbers\<close> are markup and
  are left out; the text of the info line is kept as its three numbers.
\<close>

definition renderPagination :: "app \<Rightarrow> app" where
  "renderPagination this =
     (if length (filteredProjects this) = 0 then
        this\<lparr>page := (page this)\<lparr>pagination_display := ''none''\<rparr>\<rparr>
      else
        (let this = this\<lparr>totalPages :=
                      Math_ceil_div (int (length (filteredProjects this))) (itemsPerPage this)\<rparr>;
             startItem = (currentPage this - 1) * itemsPerPage this + 1;
             endItem = min (currentPage this * itemsPerPage this)
                           (int (length (filteredProjects this)))
         in this\<lparr>page := (page this)
              \<lparr>pagination_display := ''flex'',
               pagination_info := (startItem, endItem, int (length (filteredProjects this))),
               pagination_prev_disabled := (currentPage this = 1),
               pagination_next_disabled := (currentPage this = totalPages this)\<rparr>\<rparr>))"

definition filterAndRender :: "host \<Rightarrow> app \<Rightarrow> app" where
  "filterAndRender H this =
     renderPagination (renderProjects H ((filterProjects H this)\<lparr>currentPage := 1\<rparr>))"

definition filterAndRender_unpaged :: "host \<Rightarrow> app \<Rightarrow> app" where
  "filterAndRender_unpaged H this = renderProjects_unpaged (filterProjects H this)"

text \<open>\<open>goToPage\<close>; the scrolling of the window is not modelled.\<close>

definition goToPage :: "host \<Rightarrow> int \<Rightarrow> app \<Rightarrow> app" where
  "goToPage H p this = renderPagination (renderProjects H (this\<lparr>currentPage := p\<rparr>))"

subsection \<open>Event handlers\<close>

definition updateClearSearchButton :: "app \<Rightarrow> app" where
  "updateClearSearchButton this =
     (if search (currentFilters this) \<noteq> [] then
        this\<lparr>page := (page this)\<lparr>clear_search_display := ''block''\<rparr>\<rparr>
      else this\<lparr>page := (page this)\<lparr>clear_search_display := ''none''\<rparr>\<rparr>)"

text \<open>
  The listeners that \<open>setupEventListeners\<close> and \<open>setupPaginationEventListeners\<close> register,
  each named after its element and event; the argument is \<open>e.target.value\<close>, or the page
  number of the clicked button.
\<close>

definition search_input_input :: "host \<Rightarrow> string \<Rightarrow> app \<Rightarrow> app" where
  "search_input_input H v this =
     filterAndRender H
       (updateClearSearchButton (this\<lparr>currentFilters := (currentFilters this)\<lparr>search := v\<rparr>\<rparr>))"

definition clear_search_click :: "host \<Rightarrow> app \<Rightarrow> app" where
  "clear_search_click H this =
     filterAndRender H
       (updateClearSearchButton (this\<lparr>currentFilters := (currentFilters this)\<lparr>search := []\<rparr>\<rparr>))"

definition language_filter_change :: "host \<Rightarrow> string \<Rightarrow> app \<Rightarrow> app" where
  "language_filter_change H v this =
     filterAndRender H (this\<lparr>currentFilters := (currentFilters this)\<lparr>filters.language := v\<rparr>\<rparr>)"

definition sort_select_change :: "host \<Rightarrow> string \<Rightarrow> app \<Rightarrow> app" where
  "sort_select_change H v this =
     filterAndRender H (this\<lparr>currentFilters := (currentFilters this)\<lparr>sortBy := v\<rparr>\<rparr>)"

text \<open>The four filter listeners of the variant without pagination.\<close>

definition search_input_input_unpaged :: "host \<Rightarrow> string \<Rightarrow> app \<Rightarrow> app" where
  "search_input_input_unpaged H v this =
     filterAndRender_unpaged H
       (updateClearSearchButton (this\<lparr>currentFilters := (currentFilters this)\<lparr>search := v\<rparr>\<rparr>))"

definition clear_search_click_unpaged :: "host \<Rightarrow> app \<Rightarrow> app" where
  "clear_search_click_unpaged H this =
     filterAndRender_unpaged H
       (updateClearSearchButton (this\<lparr>currentFilters := (currentFilters this)\<lparr>search := []\<rparr>\<rparr>))"

definition language_filter_change_unpaged :: "host \<Rightarrow> string \<Rightarrow> app \<Rightarrow> app" where
  "language_filter_change_unpaged H v this =
     filterAndRender_unpaged H
       (this\<lparr>currentFilters := (currentFilters this)\<lparr>filters.language := v\<rparr>\<rparr>)"

definition sort_select_change_unpaged :: "host \<Rightarrow> string \<Rightarrow> app \<Rightarrow> app" where
  "sort_select_change_unpaged H v this =
     filterAndRender_unpaged H (this\<lparr>currentFilters := (currentFilters this)\<lparr>sortBy := v\<rparr>\<rparr>)"

definition pagination_prev_click :: "host \<Rightarrow> app \<Rightarrow> app" where
  "pagination_prev_click H this =
     (if currentPage this > 1 then goToPage H (currentPage this - 1) this else this)"

definition pagination_next_click :: "host \<Rightarrow> app \<Rightarrow> app" where
  "pagination_next_click H this =
     (if currentPage this < totalPages this then goToPage H (currentPage this + 1) this
      else this)"

definition pagination_page_click :: "host \<Rightarrow> int \<Rightarrow> app \<Rightarrow> app" where
  "pagination_page_click H p this = goToPage H p this"

subsection \<open>Loading and starting\<close>

text \<open>
  What \<open>fetch\<close> and \<open>response.json()\<close> can deliver. A parsed document is \<open>null\<close>, an
  object, or any other value, whose \<open>projects\<close> property reads \<open>undefined\<close>. The
  \<open>projects\<close> field of an object is \<open>Missing\<close> when it is absent, \<open>null\<close> or another falsy
  value; \<open>Records\<close> when it is an array, whose elements are taken to be records of the
  data model; \<open>Not_array\<close> when it is any other truthy value: a non-empty string, a number
  other than zero, \<open>true\<close> or an object.
\<close>

datatype projects_field = Missing | Records "project list" | Not_array

datatype json = JNull | JObject projects_field | JOther

datatype response_body = Malformed | Parsed json

datatype fetch_result = Rejected | Response bool response_body

datatype exn = NetworkError | SyntaxError | TypeError

text \<open>
  What a load leaves behind. \<open>Loaded this\<close>: the object \<open>this\<close>, with a collection in
  \<open>this.projects\<close>. \<open>Loaded_non_array this\<close>: \<open>this.projects\<close> now holds a truthy value
  that is not an array; \<open>this\<close> gives the other fields of the object, and its \<open>projects\<close>
  component, the collection held before the load, is no longer part of the object.
\<close>

datatype loaded = Loaded app | Loaded_non_array app

text \<open>
  The \<open>try\<close> block of \<open>loadProjects\<close>: \<open>Inl e\<close> when it throws \<open>e\<close>, \<open>Inr (Some l)\<close>
  when it reaches its \<open>return\<close>, \<open>Inr None\<close> when control leaves the block at its end.
  The assignment \<open>this.projects = data.projects || []\<close> stores every truthy value as it is.
\<close>

definition loadProjects_try :: "fetch_result \<Rightarrow> app \<Rightarrow> exn + loaded option" where
  "loadProjects_try r this =
     (case r of
        Rejected \<Rightarrow> Inl NetworkError
      | Response ok body \<Rightarrow>
          (if ok then
             (case body of
                Malformed \<Rightarrow> Inl SyntaxError
              | Parsed data \<Rightarrow>
                  (case data of
                     JNull \<Rightarrow> Inl TypeError
                   | JObject field \<Rightarrow>
                       (case field of
                          Missing \<Rightarrow> Inr (Some (Loaded (this\<lparr>projects := []\<rparr>)))
                        | Records xs \<Rightarrow> Inr (Some (Loaded (this\<lparr>projects := xs\<rparr>)))
                        | Not_array \<Rightarrow> Inr (Some (Loaded_non_array this)))
                   | JOther \<Rightarrow> Inr (Some (Loaded (this\<lparr>projects := []\<rparr>)))))
           else Inr None))"

text \<open>
  \<open>loadProjects\<close>: the \<open>catch\<close> clause only logs, and control then reaches the assignment
  of the empty array. The console is not modelled. \<open>Inl e\<close> would be an exception leaving
  the method.
\<close>

definition loadProjects :: "fetch_result \<Rightarrow> app \<Rightarrow> exn + loaded" where
  "loadProjects r this =
     (case loadProjects_try r this of
        Inr (Some l) \<Rightarrow> Inr l
      | Inr None \<Rightarrow> Inr (Loaded (this\<lparr>projects := []\<rparr>))
      | Inl e \<Rightarrow> Inr (Loaded (this\<lparr>projects := []\<rparr>)))"

text \<open>The constructor, given the page as the markup delivers it.\<close>

definition new_NXProjectsTracker :: "document \<Rightarrow> app" where
  "new_NXProjectsTracker doc =
     \<lparr>projects = [], filteredProjects = [],
      currentFilters = \<lparr>search = [], language = ''all'', sortBy = ''stars''\<rparr>,
      currentPage = 1, itemsPerPage = 12, totalPages = 1, page = doc\<rparr>"

text \<open>\<open>showError\<close>; the loading screen it also hides is not modelled.\<close>

definition showError :: "string \<Rightarrow> app \<Rightarrow> app" where
  "showError message this =
     this\<lparr>page := (page this)
       \<lparr>error_message := message, main_display := ''none'', error_state_display := ''block''\<rparr>\<rparr>"

text \<open>
  How \<open>init\<close> and \<open>retry\<close> end. \<open>Started this\<close>: the \<open>try\<close> block ran to its end and left
  the object \<open>this\<close>. \<open>Start_failed d\<close>: the block threw, the \<open>catch\<close> clause called
  \<open>showError\<close> and left the page \<open>d\<close>.
\<close>

datatype started = Started app | Start_failed document

text \<open>The page after a start.\<close>

fun page_of :: "started \<Rightarrow> document" where
  "page_of (Started this) = page this"
| "page_of (Start_failed d) = d"

text \<open>
  \<open>init\<close>, without the icon, listener, language-menu and loading-screen calls: load, then
  \<open>updateStats\<close>, \<open>filterProjects\<close>, \<open>renderProjects\<close> and, in the paginated variant,
  \<open>renderPagination\<close>. When the load has stored a value that is not an array,
  \<open>this.projects.reduce\<close> is not a function: \<open>updateStats\<close>, the first method to use the
  value, throws a \<open>TypeError\<close>, and the \<open>catch\<close> clause calls \<open>showError\<close>.
\<close>

definition init :: "host \<Rightarrow> fetch_result \<Rightarrow> app \<Rightarrow> started" where
  "init H r this =
     (case loadProjects r this of
        Inl e \<Rightarrow> Start_failed (page (showError ''Failed to load projects. Please try again.'' this))
      | Inr (Loaded this) \<Rightarrow>
          Started (renderPagination (renderProjects H (filterProjects H (updateStats H this))))
      | Inr (Loaded_non_array this) \<Rightarrow>
          Start_failed (page (showError ''Failed to load projects. Please try again.'' this)))"

definition init_unpaged :: "host \<Rightarrow> fetch_result \<Rightarrow> app \<Rightarrow> started" where
  "init_unpaged H r this =
     (case loadProjects r this of
        Inl e \<Rightarrow> Start_failed (page (showError ''Failed to load projects. Please try again.'' this))
      | Inr (Loaded this) \<Rightarrow>
          Started (renderProjects_unpaged (filterProjects H (updateStats H this)))
      | Inr (Loaded_non_array this) \<Rightarrow>
          Start_failed (page (showError ''Failed to load projects. Please try again.'' this)))"

text \<open>
  \<open>retry\<close>, the same text in both variants up to the \<open>filterAndRender\<close> it calls: it hides
  the error state and shows the main part, loads, and then runs \<open>updateStats\<close> and
  \<open>filterAndRender\<close>; its \<open>catch\<close> clause is that of \<open>init\<close>.
\<close>

definition retry :: "host \<Rightarrow> fetch_result \<Rightarrow> app \<Rightarrow> started" where
  "retry H r this =
     (let this = this\<lparr>page := (page this)
                   \<lparr>error_state_display := ''none'', main_display := ''block''\<rparr>\<rparr>
      in case loadProjects r this of
           Inl e \<Rightarrow>
             Start_failed (page (showError ''Failed to load projects. Please try again.'' this))
         | Inr (Loaded this) \<Rightarrow> Started (filterAndRender H (updateStats H this))
         | Inr (Loaded_non_array this) \<Rightarrow>
             Start_failed (page (showError ''Failed to load projects. Please try again.'' this)))"

definition retry_unpaged :: "host \<Rightarrow> fetch_result \<Rightarrow> app \<Rightarrow> started" where
  "retry_unpaged H r this =
     (let this = this\<lparr>page := (page this)
                   \<lparr>error_state_display := ''none'', main_display := ''block''\<rparr>\<rparr>
      in case loadProjects r this of
           Inl e \<Rightarrow>
             Start_failed (page (showError ''Failed to load projects. Please try again.'' this))
         | Inr (Loaded this) \<Rightarrow> Started (filterAndRender_unpaged H (updateStats H this))
         | Inr (Loaded_non_array this) \<Rightarrow>
             Start_failed (page (showError ''Failed to load projects. Please try again.'' this)))"

subsection \<open>Arrays as objects\<close>

text \<open>
  \<open>filterProjects\<close> once more, with the arrays held by reference, so that copying,
  allocation and the in-place \<open>sort\<close> are explicit. The store lists the arrays allocated so
  far; a reference is an index into it. The records inside the arrays are shared by the
  copies and never written.
\<close>

type_synonym ref = nat

type_synonym store = "project list list"

definition alloc :: "project list \<Rightarrow> store \<Rightarrow> ref \<times> store" where
  "alloc xs h = (length h, h @ [xs])"

record app_refs =
  projects_ref :: ref
  filteredProjects_ref :: ref
  currentFilters_val :: filters

definition filterProjects_store :: "host \<Rightarrow> app_refs \<Rightarrow> store \<Rightarrow> app_refs \<times> store" where
  "filterProjects_store H this h =
     (let (filtered, h) = alloc (h ! projects_ref this) h;
          (filtered, h) =
            (if search (currentFilters_val this) \<noteq> [] then
               (let searchTerm = toLowerCase (search (currentFilters_val this))
                in alloc (filter (matchesSearch searchTerm) (h ! filtered)) h)
             else (filtered, h));
          (filtered, h) =
            (if filters.language (currentFilters_val this) \<noteq> ''all'' then
               alloc (filter (\<lambda>project. project.language project =
                                Some (filters.language (currentFilters_val this))) (h ! filtered)) h
             else (filtered, h));
          h = h[filtered :=
                  Array_sort (compareProjects H (sortBy (currentFilters_val this))) (h ! filtered)]
      in (this\<lparr>filteredProjects_ref := filtered\<rparr>, h))"

subsection \<open>Notions used to state the properties\<close>

text \<open>
  The conjunction of the two predicates of \<open>filterProjects\<close>, each one switched off as the
  method switches it off. It is not a function of the source; the theorems use it to name
  the list that \<open>sort\<close> receives.
\<close>

definition passesFilters :: "filters \<Rightarrow> project \<Rightarrow> bool" where
  "passesFilters f p =
     ((search f = [] \<or> matchesSearch (toLowerCase (search f)) p) \<and>
      (filters.language f = ''all'' \<or> project.language p = Some (filters.language f)))"

text \<open>The four statistics a page shows.\<close>

definition statistics_shown :: "document \<Rightarrow> string \<times> string \<times> string \<times> nat" where
  "statistics_shown d = (total_projects d, total_stars d, total_forks d, total_languages d)"

text \<open>The page shows what \<open>updateStats\<close> would write now.\<close>

definition statistics_current :: "host \<Rightarrow> app \<Rightarrow> bool" where
  "statistics_current H s \<longleftrightarrow>
     statistics_shown (page s) = statistics_shown (page (updateStats H s))"

subsection \<open>A sample engine and sample states\<close>

text \<open>
  Used only to state closed instances of the theorems. The engine collates by code units,
  parses no timestamp, divides exactly and converts every number to the empty text.
\<close>

fun compare_units :: "string \<Rightarrow> string \<Rightarrow> int" where
  "compare_units [] [] = 0"
| "compare_units [] (d # ds) = - 1"
| "compare_units (c # cs) [] = 1"
| "compare_units (c # cs) (d # ds) =
     (if (of_char c :: nat) < of_char d then - 1
      else if (of_char d :: nat) < of_char c then 1
      else compare_units cs ds)"

definition sample_host :: host where
  "sample_host =
     \<lparr>localeCompare = compare_units, Date_getTime = (\<lambda>s. None),
      Number_divide = (\<lambda>x y. x / y), toFixed = (\<lambda>x d. []), Number_toString = (\<lambda>x. [])\<rparr>"

text \<open>A record with the given name, author, description, language and stars.\<close>

definition sample_project :: "string \<Rightarrow> string \<Rightarrow> string option \<Rightarrow> string option \<Rightarrow> int \<Rightarrow> project"
  where
  "sample_project n a d l s =
     \<lparr>name = n, author = a, authorAvatar = [], authorUrl = [], projectUrl = a @ ''/'' @ n,
      projectFullUrl = [], description = d, language = l, stars = s, forks = 0,
      lastUpdated = ''2024-01-15T10:30:00Z'', createdAt = ''2020-03-15T08:00:00Z'',
      latestVersion = None, latestReleaseUrl = None, latestReleaseDate = None,
      requiredFirmware = ''20.2.0''\<rparr>"

text \<open>A page before any method has written to it.\<close>

definition sample_document :: document where
  "sample_document =
     \<lparr>projects_grid = [], no_results_display = ''none'', no_results_message = [],
      error_state_display = ''none'', error_message = [], main_display = ''block'',
      clear_search_display = ''none'',
      pagination_display = ''none'', pagination_info = (0, 0, 0),
      pagination_prev_disabled = False, pagination_next_disabled = False,
      total_projects = ''-'', total_stars = ''-'', total_forks = ''-'', total_languages = 0,
      statistics_writes = 0\<rparr>"

text \<open>The tracker as constructed, holding the given collection.\<close>

definition sample_app :: "project list \<Rightarrow> app" where
  "sample_app ps = (new_NXProjectsTracker sample_document)\<lparr>projects := ps\<rparr>"

definition search_example :: app where
  "search_example =
     (sample_app
        [sample_project ''CFW'' ''SciresM'' (Some ''atmosphere firmware'') (Some ''C++'') 5,
         sample_project ''hekate'' ''CTCaer'' None (Some ''C'') 7])
     \<lparr>currentFilters := \<lparr>search = ''ATMO'', language = ''all'', sortBy = ''stars''\<rparr>\<rparr>"

definition language_example :: app where
  "language_example =
     (sample_app
        [sample_project ''CFW'' ''SciresM'' (Some ''atmosphere firmware'') (Some ''C++'') 5,
         sample_project ''hekate'' ''CTCaer'' None (Some ''C'') 7,
         sample_project ''nx-hbmenu'' ''switchbrew'' (Some []) None 9])
     \<lparr>currentFilters := \<lparr>search = [], language = ''C'', sortBy = ''stars''\<rparr>\<rparr>"

definition stars_example :: app where
  "stars_example =
     sample_app [sample_project ''a'' ''x'' None None 5,
                 sample_project ''b'' ''x'' None None 50,
                 sample_project ''c'' ''x'' None None 1]"

definition unknown_sort_example :: app where
  "unknown_sort_example =
     stars_example\<lparr>currentFilters := \<lparr>search = [], language = ''all'', sortBy = ''popularity''\<rparr>\<rparr>"

text \<open>A store with the collection of \<open>stars_example\<close> at reference 0.\<close>

definition store_example :: store where
  "store_example = [projects stars_example, []]"

definition refs_example :: app_refs where
  "refs_example =
     \<lparr>projects_ref = 0, filteredProjects_ref = 1,
      currentFilters_val = \<lparr>search = [], language = ''all'', sortBy = ''stars''\<rparr>\<rparr>"

text \<open>
  The object \<open>init\<close> leaves; when the start fails, the object as constructed over the
  page the failure left.
\<close>

fun object_of :: "started \<Rightarrow> app" where
  "object_of (Started this) = this"
| "object_of (Start_failed d) = new_NXProjectsTracker d"

text \<open>The tracker, of either variant, after \<open>init\<close> has loaded three records.\<close>

definition three_example :: app where
  "three_example =
     object_of (init sample_host (Response True (Parsed (JObject (Records
        [sample_project ''CFW'' ''SciresM'' (Some ''atmosphere firmware'') (Some ''C++'') 5,
         sample_project ''hekate'' ''CTCaer'' None (Some ''C'') 7,
         sample_project ''nx-hbmenu'' ''switchbrew'' (Some []) None 9]))))
       (new_NXProjectsTracker sample_document))"

definition three_example_unpaged :: app where
  "three_example_unpaged =
     object_of (init_unpaged sample_host (Response True (Parsed (JObject (Records
        [sample_project ''CFW'' ''SciresM'' (Some ''atmosphere firmware'') (Some ''C++'') 5,
         sample_project ''hekate'' ''CTCaer'' None (Some ''C'') 7,
         sample_project ''nx-hbmenu'' ''switchbrew'' (Some []) None 9]))))
       (new_NXProjectsTracker sample_document))"

text \<open>The paginated tracker after a load of three records and the search \<open>zzz\<close>.\<close>

definition no_match_example :: app where
  "no_match_example =
     search_input_input sample_host ''zzz''
       (object_of
          (init sample_host (Response True (Parsed (JObject (Records (projects stars_example)))))
             (new_NXProjectsTracker sample_document)))"

text \<open>The paginated tracker after a load of 25 records, with stars 0 to 24.\<close>

definition twenty_five_example :: app where
  "twenty_five_example =
     object_of
       (init sample_host
          (Response True (Parsed (JObject (Records
             (map (\<lambda>n. sample_project ''p'' ''a'' None None (int n)) [0..<25])))))
          (new_NXProjectsTracker sample_document))"

text \<open>A document whose \<open>projects\<close> field is not an array, as \<open>{"projects": "abc"}\<close>.\<close>

definition not_array_example :: fetch_result where
  "not_array_example = Response True (Parsed (JObject Not_array))"

section \<open>Properties\<close>

subsection \<open>Strings and sorting\<close>

lemma String_includes_iff: "String_includes s t \<longleftrightarrow> sublist t s"
proof (induction s)
  case Nil
  then show ?case by simp
next
  case (Cons c cs)
  then show ?case by (simp add: sublist_Cons_right)
qed

lemma matchesSearch_iff:
  "matchesSearch t p \<longleftrightarrow>
     sublist t (toLowerCase (name p)) \<or> sublist t (toLowerCase (author p)) \<or>
     (\<exists>d. description p = Some d \<and> d \<noteq> [] \<and> sublist t (toLowerCase d))"
  by (auto simp: matchesSearch_def String_includes_iff split: option.splits)

lemma mset_insertBy: "mset (insertBy cmp x ys) = add_mset x (mset ys)"
  by (induction ys) auto

lemma mset_Array_sort: "mset (Array_sort cmp xs) = mset xs"
  by (induction xs) (auto simp: Array_sort_def mset_insertBy)

lemma set_Array_sort: "set (Array_sort cmp xs) = set xs"
  using mset_Array_sort [of cmp xs] by (metis set_mset_mset)

text \<open>With the comparator of the \<open>stars\<close> case the model is the library's stable sort.\<close>

lemma insertBy_stars:
  "insertBy (\<lambda>a b. Some (stars b - stars a)) x ys = insort_key (\<lambda>p. - stars p) x ys"
  by (induction ys) (auto simp: SortCompare_def)

lemma Array_sort_stars:
  "Array_sort (\<lambda>a b. Some (stars b - stars a)) xs = sort_key (\<lambda>p. - stars p) xs"
  by (induction xs) (auto simp: Array_sort_def insertBy_stars sort_key_def)

lemma compareProjects_stars: "compareProjects H ''stars'' = (\<lambda>a b. Some (stars b - stars a))"
  by (intro ext) (simp add: compareProjects_def)

lemma sorted_wrt_stars_sort_key:
  "sorted_wrt (\<lambda>a b. stars b \<le> stars a) (sort_key (\<lambda>p. - stars p) xs)"
proof -
  have "sorted (map (\<lambda>p. - stars p) (sort_key (\<lambda>p. - stars p) xs))"
    by (rule sorted_sort_key)
  then show ?thesis by (simp add: sorted_map)
qed

lemma stable_stars_sort_key:
  "filter (\<lambda>p. stars p = k) (sort_key (\<lambda>p. - stars p) xs) = filter (\<lambda>p. stars p = k) xs"
  using sort_key_stable [of "\<lambda>p. - stars p" "- k" xs] by simp

subsection \<open>filterProjects\<close>

lemma filterProjects_filtered:
  "filteredProjects (filterProjects H this) =
     Array_sort (compareProjects H (sortBy (currentFilters this)))
       (filter (passesFilters (currentFilters this)) (projects this))"
proof -
  have "passesFilters (currentFilters this) =
          (\<lambda>p. (search (currentFilters this) = [] \<or>
                 matchesSearch (toLowerCase (search (currentFilters this))) p) \<and>
                (filters.language (currentFilters this) = ''all'' \<or>
                 project.language p = Some (filters.language (currentFilters this))))"
    by (rule ext) (simp add: passesFilters_def)
  then show ?thesis
    by (simp add: filterProjects_def Let_def)
qed

lemma filterProjects_frame:
  "filterProjects H this = this\<lparr>filteredProjects := filteredProjects (filterProjects H this)\<rparr>"
  by (simp add: filterProjects_def Let_def)

lemma search_example_run:
  "filteredProjects (filterProjects sample_host search_example) =
     [sample_project ''CFW'' ''SciresM'' (Some ''atmosphere firmware'') (Some ''C++'') 5]"
  by code_simp

lemma language_example_run:
  "filteredProjects (filterProjects sample_host language_example) =
     [sample_project ''hekate'' ''CTCaer'' None (Some ''C'') 7]"
  by code_simp

lemma stars_example_run:
  "map stars (filteredProjects (filterProjects sample_host stars_example)) = [50, 5, 1]"
  by code_simp

text \<open>
  C1. With a non-empty search string and the language selection \<open>all\<close> the output holds
  exactly the records of the collection, each as often as it occurs there, for which the
  lowercased search string is a contiguous part of the lowercased name, or of the
  lowercased author, or of the lowercased description when the description is present and
  not empty. With another language selection it holds exactly those of them that have the
  selected language. The instance below is the search \<open>ATMO\<close>, which keeps a record that
  has \<open>atmosphere firmware\<close> only in its description and drops a record that matches in
  none of the three fields.
\<close>

theorem search_keeps_exactly_the_matches:
  assumes "search (currentFilters this) \<noteq> []"
  shows "(filters.language (currentFilters this) = ''all'' \<longrightarrow>
          mset (filteredProjects (filterProjects H this)) =
            filter_mset
              (\<lambda>p. sublist (toLowerCase (search (currentFilters this))) (toLowerCase (name p)) \<or>
                   sublist (toLowerCase (search (currentFilters this))) (toLowerCase (author p)) \<or>
                   (\<exists>d. description p = Some d \<and> d \<noteq> [] \<and>
                        sublist (toLowerCase (search (currentFilters this))) (toLowerCase d)))
              (mset (projects this))) \<and>
         mset (filteredProjects (filterProjects H this)) =
           filter_mset
             (\<lambda>p. (sublist (toLowerCase (search (currentFilters this))) (toLowerCase (name p)) \<or>
                   sublist (toLowerCase (search (currentFilters this))) (toLowerCase (author p)) \<or>
                   (\<exists>d. description p = Some d \<and> d \<noteq> [] \<and>
                        sublist (toLowerCase (search (currentFilters this))) (toLowerCase d))) \<and>
                  (filters.language (currentFilters this) = ''all'' \<or>
                   project.language p = Some (filters.language (currentFilters this))))
             (mset (projects this))"
  using assms
  by (simp add: filterProjects_filtered mset_Array_sort passesFilters_def matchesSearch_iff)

theorem search_keeps_exactly_the_matches_witness:
  "search (currentFilters search_example) \<noteq> [] \<and>
   mset (filteredProjects (filterProjects sample_host search_example)) =
     {#sample_project ''CFW'' ''SciresM'' (Some ''atmosphere firmware'') (Some ''C++'') 5#}"
proof -
  have h: "search (currentFilters search_example) \<noteq> []"
    by (simp add: search_example_def)
  show ?thesis
    using h search_keeps_exactly_the_matches [OF h, of sample_host] search_example_run
    by simp
qed

text \<open>
  C2. With a language selection other than \<open>all\<close> every record of the output has exactly
  that language; the output holds exactly the records of the full collection that pass the
  search test (when there is a search string) and have that language; the language filter
  runs on the result of the search filter; and the output does not depend on the filtered
  list of the previous run.
\<close>

theorem language_filter_exact:
  assumes "filters.language (currentFilters this) \<noteq> ''all''"
  shows "(\<forall>p \<in> set (filteredProjects (filterProjects H this)).
            project.language p = Some (filters.language (currentFilters this))) \<and>
         mset (filteredProjects (filterProjects H this)) =
           filter_mset
             (\<lambda>p. (search (currentFilters this) = [] \<or>
                    matchesSearch (toLowerCase (search (currentFilters this))) p) \<and>
                   project.language p = Some (filters.language (currentFilters this)))
             (mset (projects this)) \<and>
         filteredProjects (filterProjects H this) =
           Array_sort (compareProjects H (sortBy (currentFilters this)))
             (filter (\<lambda>p. project.language p = Some (filters.language (currentFilters this)))
                (if search (currentFilters this) \<noteq> []
                 then filter (matchesSearch (toLowerCase (search (currentFilters this))))
                        (projects this)
                 else projects this)) \<and>
         (\<forall>prev. filteredProjects (filterProjects H (this\<lparr>filteredProjects := prev\<rparr>)) =
                 filteredProjects (filterProjects H this))"
proof (intro conjI)
  show "\<forall>p \<in> set (filteredProjects (filterProjects H this)).
            project.language p = Some (filters.language (currentFilters this))"
    using assms by (simp add: filterProjects_filtered set_Array_sort passesFilters_def)
  show "mset (filteredProjects (filterProjects H this)) =
           filter_mset
             (\<lambda>p. (search (currentFilters this) = [] \<or>
                    matchesSearch (toLowerCase (search (currentFilters this))) p) \<and>
                   project.language p = Some (filters.language (currentFilters this)))
             (mset (projects this))"
    using assms by (simp add: filterProjects_filtered mset_Array_sort passesFilters_def)
  show "filteredProjects (filterProjects H this) =
           Array_sort (compareProjects H (sortBy (currentFilters this)))
             (filter (\<lambda>p. project.language p = Some (filters.language (currentFilters this)))
                (if search (currentFilters this) \<noteq> []
                 then filter (matchesSearch (toLowerCase (search (currentFilters this))))
                        (projects this)
                 else projects this))"
    using assms by (simp add: filterProjects_def Let_def)
  show "\<forall>prev. filteredProjects (filterProjects H (this\<lparr>filteredProjects := prev\<rparr>)) =
                 filteredProjects (filterProjects H this)"
    by (simp add: filterProjects_filtered)
qed

theorem language_filter_exact_witness:
  "filters.language (currentFilters language_example) \<noteq> ''all'' \<and>
   filteredProjects (filterProjects sample_host language_example) =
     [sample_project ''hekate'' ''CTCaer'' None (Some ''C'') 7] \<and>
   filteredProjects (filterProjects sample_host
      (language_example\<lparr>filteredProjects := projects language_example\<rparr>)) =
     [sample_project ''hekate'' ''CTCaer'' None (Some ''C'') 7]"
proof -
  have h: "filters.language (currentFilters language_example) \<noteq> ''all''"
    by (simp add: language_example_def)
  show ?thesis
    using h language_filter_exact [OF h, of sample_host] language_example_run
    by simp
qed

text \<open>
  C3. With \<open>sortBy\<close> equal to \<open>stars\<close> the output is in descending order of stars, records
  with the same number of stars keep the order they have in the collection, and the output
  is a rearrangement of the records that pass the filters. \<open>stars\<close> is the value the
  constructor sets. For the collection with stars 5, 50, 1 the output has stars 50, 5, 1.
\<close>

theorem stars_descending_stable:
  assumes "sortBy (currentFilters this) = ''stars''"
  shows "sorted_wrt (\<lambda>a b. stars b \<le> stars a) (filteredProjects (filterProjects H this)) \<and>
         (\<forall>k. filter (\<lambda>p. stars p = k) (filteredProjects (filterProjects H this)) =
               filter (\<lambda>p. stars p = k)
                 (filter (passesFilters (currentFilters this)) (projects this))) \<and>
         mset (filteredProjects (filterProjects H this)) =
           mset (filter (passesFilters (currentFilters this)) (projects this)) \<and>
         sortBy (currentFilters (new_NXProjectsTracker doc)) = ''stars'' \<and>
         map stars (filteredProjects (filterProjects sample_host stars_example)) = [50, 5, 1]"
proof -
  have out: "filteredProjects (filterProjects H this) =
               sort_key (\<lambda>p. - stars p)
                 (filter (passesFilters (currentFilters this)) (projects this))"
    using assms by (simp add: filterProjects_filtered compareProjects_stars Array_sort_stars)
  have "sortBy (currentFilters (new_NXProjectsTracker doc)) = ''stars''"
    by (simp add: new_NXProjectsTracker_def)
  with stars_example_run show ?thesis
    unfolding out by (simp add: sorted_wrt_stars_sort_key stable_stars_sort_key)
qed

theorem stars_descending_stable_witness:
  "sortBy (currentFilters stars_example) = ''stars'' \<and>
   sorted_wrt (\<lambda>a b. stars b \<le> stars a)
     (filteredProjects (filterProjects sample_host stars_example)) \<and>
   map stars (filteredProjects (filterProjects sample_host stars_example)) = [50, 5, 1]"
proof -
  have h: "sortBy (currentFilters stars_example) = ''stars''"
    by (simp add: stars_example_def sample_app_def new_NXProjectsTracker_def)
  show ?thesis
    using h stars_descending_stable [OF h, of sample_host]
    by simp
qed

lemma passesFilters_sortBy: "passesFilters (f\<lparr>sortBy := k\<rparr>) = passesFilters f"
  by (rule ext) (simp add: passesFilters_def)

lemma compareProjects_default:
  assumes "key \<notin> {''stars'', ''forks'', ''name'', ''author'', ''latest'', ''created''}"
  shows "compareProjects H key = compareProjects H ''stars''"
  using assms by (intro ext) (simp add: compareProjects_def)

text \<open>
  C6. With a \<open>sortBy\<close> value outside the six cases of the \<open>switch\<close> the output is the
  same list as with \<open>stars\<close>, for the same collection, search and language.
\<close>

theorem unknown_sort_key_sorts_by_stars:
  assumes "sortBy (currentFilters this) \<notin>
             {''stars'', ''forks'', ''name'', ''author'', ''latest'', ''created''}"
  shows "filteredProjects (filterProjects H this) =
         filteredProjects
           (filterProjects H (this\<lparr>currentFilters := (currentFilters this)\<lparr>sortBy := ''stars''\<rparr>\<rparr>))"
  using compareProjects_default [OF assms, of H]
  by (simp add: filterProjects_filtered passesFilters_sortBy)

lemma unknown_sort_example_run:
  "map stars (filteredProjects (filterProjects sample_host unknown_sort_example)) = [50, 5, 1]"
  by code_simp

theorem unknown_sort_key_sorts_by_stars_witness:
  "sortBy (currentFilters unknown_sort_example) \<notin>
     {''stars'', ''forks'', ''name'', ''author'', ''latest'', ''created''} \<and>
   map stars (filteredProjects (filterProjects sample_host
     (unknown_sort_example\<lparr>currentFilters :=
        (currentFilters unknown_sort_example)\<lparr>sortBy := ''stars''\<rparr>\<rparr>))) = [50, 5, 1]"
proof -
  have h: "sortBy (currentFilters unknown_sort_example) \<notin>
             {''stars'', ''forks'', ''name'', ''author'', ''latest'', ''created''}"
    by (simp add: unknown_sort_example_def)
  show ?thesis
    using h unknown_sort_key_sorts_by_stars [OF h, of sample_host] unknown_sort_example_run
    by simp
qed

text \<open>
  C7. The output of \<open>filterProjects\<close> is a function of the collection and the filter state
  alone: two states that agree on both give the same list, element for element, whatever
  else differs between them (the previous filtered list, the current page, the page
  contents); and running the method again on its own result changes nothing.
\<close>

theorem filterProjects_deterministic:
  assumes "projects a = projects b" and "currentFilters a = currentFilters b"
  shows "filteredProjects (filterProjects H a) = filteredProjects (filterProjects H b) \<and>
         filterProjects H (filterProjects H a) = filterProjects H a"
proof
  show "filteredProjects (filterProjects H a) = filteredProjects (filterProjects H b)"
    using assms by (simp add: filterProjects_filtered)
  show "filterProjects H (filterProjects H a) = filterProjects H a"
    by (simp add: filterProjects_def Let_def)
qed

theorem filterProjects_deterministic_witness:
  "projects search_example =
     projects (search_example\<lparr>filteredProjects := projects search_example, currentPage := 7\<rparr>) \<and>
   currentFilters search_example =
     currentFilters (search_example\<lparr>filteredProjects := projects search_example, currentPage := 7\<rparr>) \<and>
   filteredProjects (filterProjects sample_host
     (search_example\<lparr>filteredProjects := projects search_example, currentPage := 7\<rparr>)) =
     [sample_project ''CFW'' ''SciresM'' (Some ''atmosphere firmware'') (Some ''C++'') 5]"
  using filterProjects_deterministic
          [of search_example
              "search_example\<lparr>filteredProjects := projects search_example, currentPage := 7\<rparr>"
              sample_host]
        search_example_run
  by simp

subsection \<open>Number formatting\<close>

text \<open>
  C10. For a number from 0 up to, and not including, 1000000000 \<open>formatNumber\<close> returns
  what \<open>NumberUtils.format\<close> returns with one decimal, given explicitly or by default: the
  plain conversion below 1000, one decimal of the thousands with \<open>K\<close> below 1000000, one
  decimal of the millions with \<open>M\<close> from there on.
\<close>

theorem formatNumber_agrees_with_NumberUtils_format:
  assumes "0 \<le> num" and "num < 1000000000"
  shows "formatNumber H num = NumberUtils_format H (Some num) (Some 1) \<and>
         formatNumber H num = NumberUtils_format H (Some num) None \<and>
         (num < 1000 \<longrightarrow> formatNumber H num = Number_toString H num) \<and>
         (1000 \<le> num \<and> num < 1000000 \<longrightarrow>
            formatNumber H num = toFixed H (Number_divide H num 1000) 1 @ ''K'') \<and>
         (1000000 \<le> num \<longrightarrow>
            formatNumber H num = toFixed H (Number_divide H num 1000000) 1 @ ''M'')"
  using assms by (simp add: formatNumber_def NumberUtils_format_def)

theorem formatNumber_agrees_with_NumberUtils_format_witness:
  "(0::real) \<le> 1500 \<and> (1500::real) < 1000000000 \<and>
   formatNumber sample_host 1500 = NumberUtils_format sample_host (Some 1500) (Some 1) \<and>
   formatNumber sample_host 1500 = toFixed sample_host (Number_divide sample_host 1500 1000) 1 @ ''K''"
proof -
  have h1: "(0::real) \<le> 1500" and h2: "(1500::real) < 1000000000"
    by simp_all
  from formatNumber_agrees_with_NumberUtils_format [OF h1 h2, of sample_host] h1 h2
  show ?thesis by auto
qed

subsection \<open>Loading and starting\<close>

lemma loadProjects_returns: "\<exists>l. loadProjects r this = Inr l"
  by (simp add: loadProjects_def split: sum.split option.split)

lemma loadProjects_cases:
  "loadProjects Rejected this = Inr (Loaded (this\<lparr>projects := []\<rparr>))"
  "loadProjects (Response False body) this = Inr (Loaded (this\<lparr>projects := []\<rparr>))"
  "loadProjects (Response True Malformed) this = Inr (Loaded (this\<lparr>projects := []\<rparr>))"
  "loadProjects (Response True (Parsed JNull)) this = Inr (Loaded (this\<lparr>projects := []\<rparr>))"
  "loadProjects (Response True (Parsed JOther)) this = Inr (Loaded (this\<lparr>projects := []\<rparr>))"
  "loadProjects (Response True (Parsed (JObject Missing))) this =
     Inr (Loaded (this\<lparr>projects := []\<rparr>))"
  "loadProjects (Response True (Parsed (JObject (Records ps)))) this =
     Inr (Loaded (this\<lparr>projects := ps\<rparr>))"
  "loadProjects (Response True (Parsed (JObject Not_array))) this = Inr (Loaded_non_array this)"
  by (simp_all add: loadProjects_def loadProjects_try_def)

text \<open>
  The load does not always end with the empty collection, and there is a second failure
  page. For a document whose \<open>projects\<close> field is a truthy value that is not an array the
  load stores that value; \<open>init\<close> then ends in its \<open>catch\<close> clause, and the page
  \<open>showError\<close> leaves is not the page a rejected fetch leads to: in the paginated variant
  the main part is hidden in the one and shown in the other, in the variant without
  pagination the error state is shown in the one and not in the other.
\<close>

lemma not_array_example_run:
  "error_message (page_of
     (init sample_host not_array_example (new_NXProjectsTracker sample_document))) =
     ''Failed to load projects. Please try again.'' \<and>
   main_display (page_of
     (init sample_host not_array_example (new_NXProjectsTracker sample_document))) = ''none'' \<and>
   error_message (page_of
     (init sample_host Rejected (new_NXProjectsTracker sample_document))) = [] \<and>
   main_display (page_of
     (init sample_host Rejected (new_NXProjectsTracker sample_document))) = ''block'' \<and>
   error_state_display (page_of
     (init_unpaged sample_host not_array_example (new_NXProjectsTracker sample_document))) =
     ''block'' \<and>
   error_state_display (page_of
     (init_unpaged sample_host Rejected (new_NXProjectsTracker sample_document))) = ''none''"
  by code_simp

theorem one_failure_mode_counterexample:
  "loadProjects not_array_example (new_NXProjectsTracker sample_document) \<noteq>
     Inr (Loaded ((new_NXProjectsTracker sample_document)\<lparr>projects := []\<rparr>)) \<and>
   init sample_host not_array_example (new_NXProjectsTracker sample_document) \<noteq>
     init sample_host Rejected (new_NXProjectsTracker sample_document) \<and>
   main_display (page_of
     (init sample_host not_array_example (new_NXProjectsTracker sample_document))) \<noteq>
   main_display (page_of
     (init sample_host Rejected (new_NXProjectsTracker sample_document))) \<and>
   error_state_display (page_of
     (init_unpaged sample_host not_array_example (new_NXProjectsTracker sample_document))) \<noteq>
   error_state_display (page_of
     (init_unpaged sample_host Rejected (new_NXProjectsTracker sample_document)))"
proof -
  have "loadProjects not_array_example (new_NXProjectsTracker sample_document) \<noteq>
     Inr (Loaded ((new_NXProjectsTracker sample_document)\<lparr>projects := []\<rparr>))"
    by (simp add: not_array_example_def loadProjects_cases)
  moreover
  have "init sample_host not_array_example (new_NXProjectsTracker sample_document) \<noteq>
     init sample_host Rejected (new_NXProjectsTracker sample_document)"
    by (simp add: not_array_example_def loadProjects_cases init_def)
  ultimately show ?thesis
    using not_array_example_run by simp
qed

text \<open>
  C8. \<open>loadProjects\<close> never lets an exception out. A rejected fetch, a response that is not
  OK, a body that is not JSON, and a document that is \<open>null\<close>, not an object, or without a
  truthy \<open>projects\<close> field all end in the same state, the one with the empty collection,
  and after \<open>init\<close> the page shows the same state with an empty grid, whichever of them it
  was: the error state in the paginated variant, the message that no project data is
  available in the other. A document with a \<open>projects\<close> array sets the collection to it.
  Any other truthy \<open>projects\<close> value is stored as it is; \<open>init\<close> then ends in its
  \<open>catch\<close> clause, which hides the main part and shows the error state with the message
  of \<open>showError\<close>.
\<close>

theorem loadProjects_outcomes:
  "loadProjects Rejected this = Inr (Loaded (this\<lparr>projects := []\<rparr>)) \<and>
   loadProjects (Response False body) this = Inr (Loaded (this\<lparr>projects := []\<rparr>)) \<and>
   loadProjects (Response True Malformed) this = Inr (Loaded (this\<lparr>projects := []\<rparr>)) \<and>
   loadProjects (Response True (Parsed JNull)) this = Inr (Loaded (this\<lparr>projects := []\<rparr>)) \<and>
   loadProjects (Response True (Parsed JOther)) this = Inr (Loaded (this\<lparr>projects := []\<rparr>)) \<and>
   loadProjects (Response True (Parsed (JObject Missing))) this =
     Inr (Loaded (this\<lparr>projects := []\<rparr>)) \<and>
   loadProjects (Response True (Parsed (JObject (Records ps)))) this =
     Inr (Loaded (this\<lparr>projects := ps\<rparr>)) \<and>
   loadProjects (Response True (Parsed (JObject Not_array))) this = Inr (Loaded_non_array this) \<and>
   (\<exists>l. loadProjects r this = Inr l) \<and>
   init H (Response False body) this = init H Rejected this \<and>
   init H (Response True Malformed) this = init H Rejected this \<and>
   init H (Response True (Parsed JNull)) this = init H Rejected this \<and>
   init H (Response True (Parsed JOther)) this = init H Rejected this \<and>
   init H (Response True (Parsed (JObject Missing))) this = init H Rejected this \<and>
   (\<exists>s. init H Rejected this = Started s \<and> projects s = [] \<and> projects_grid (page s) = [] \<and>
        error_state_display (page s) = ''block'' \<and>
        error_message (page s) = error_message (page this) \<and>
        main_display (page s) = main_display (page this)) \<and>
   init H (Response True (Parsed (JObject Not_array))) this =
     Start_failed ((page this)
       \<lparr>error_message := ''Failed to load projects. Please try again.'',
        main_display := ''none'', error_state_display := ''block''\<rparr>) \<and>
   init_unpaged H (Response False body) this = init_unpaged H Rejected this \<and>
   init_unpaged H (Response True Malformed) this = init_unpaged H Rejected this \<and>
   init_unpaged H (Response True (Parsed JNull)) this = init_unpaged H Rejected this \<and>
   init_unpaged H (Response True (Parsed JOther)) this = init_unpaged H Rejected this \<and>
   init_unpaged H (Response True (Parsed (JObject Missing))) this =
     init_unpaged H Rejected this \<and>
   (\<exists>s. init_unpaged H Rejected this = Started s \<and> projects s = [] \<and>
        projects_grid (page s) = [] \<and> no_results_display (page s) = ''block'' \<and>
        no_results_message (page s) = ''No project data available'' \<and>
        error_state_display (page s) = error_state_display (page this) \<and>
        main_display (page s) = main_display (page this)) \<and>
   init_unpaged H (Response True (Parsed (JObject Not_array))) this =
     Start_failed ((page this)
       \<lparr>error_message := ''Failed to load projects. Please try again.'',
        main_display := ''none'', error_state_display := ''block''\<rparr>)"
proof -
  have paged: "\<exists>s. init H Rejected this = Started s \<and> projects s = [] \<and>
        projects_grid (page s) = [] \<and> error_state_display (page s) = ''block'' \<and>
        error_message (page s) = error_message (page this) \<and>
        main_display (page s) = main_display (page this)"
    by (simp add: init_def loadProjects_cases renderProjects_def renderPagination_def
        filterProjects_def updateStats_def Let_def Array_sort_def)
  have unpaged: "\<exists>s. init_unpaged H Rejected this = Started s \<and> projects s = [] \<and>
        projects_grid (page s) = [] \<and> no_results_display (page s) = ''block'' \<and>
        no_results_message (page s) = ''No project data available'' \<and>
        error_state_display (page s) = error_state_display (page this) \<and>
        main_display (page s) = main_display (page this)"
    by (simp add: init_unpaged_def loadProjects_cases renderProjects_unpaged_def
        filterProjects_def updateStats_def Let_def Array_sort_def)
  show ?thesis
    using paged unpaged loadProjects_returns [of r this]
    by (simp add: loadProjects_cases init_def init_unpaged_def showError_def)
qed

subsection \<open>Arrays as objects\<close>

lemma filterProjects_store_result:
  assumes "projects_ref this < length h"
  shows "\<exists>r news.
           filterProjects_store H this h =
             (this\<lparr>filteredProjects_ref := r\<rparr>,
              h @ news[r - length h :=
                         Array_sort (compareProjects H (sortBy (currentFilters_val this)))
                           (filter (passesFilters (currentFilters_val this))
                              (h ! projects_ref this))]) \<and>
           length h \<le> r \<and> r < length h + length news"
proof -
  let ?f = "currentFilters_val this"
  let ?ps = "h ! projects_ref this"
  let ?cmp = "compareProjects H (sortBy ?f)"
  have pf: "passesFilters ?f =
          (\<lambda>p. (search ?f = [] \<or> matchesSearch (toLowerCase (search ?f)) p) \<and>
                (filters.language ?f = ''all'' \<or>
                 project.language p = Some (filters.language ?f)))"
    by (rule ext) (simp add: passesFilters_def)
  consider (nn) "search ?f = []" "filters.language ?f = ''all''"
    | (ny) "search ?f = []" "filters.language ?f \<noteq> ''all''"
    | (yn) "search ?f \<noteq> []" "filters.language ?f = ''all''"
    | (yy) "search ?f \<noteq> []" "filters.language ?f \<noteq> ''all''"
    by blast
  then show ?thesis
  proof cases
    case nn
    have "filterProjects_store H this h =
            (this\<lparr>filteredProjects_ref := length h\<rparr>, h @ [?ps][0 := Array_sort ?cmp (filter (passesFilters ?f) ?ps)])"
      using nn assms by (simp add: filterProjects_store_def alloc_def Let_def pf nth_append list_update_append)
    then show ?thesis
      by (intro exI[of _ "length h"] exI[of _ "[?ps]"]) simp
  next
    case ny
    have "filterProjects_store H this h =
            (this\<lparr>filteredProjects_ref := length h + 1\<rparr>,
             h @ [?ps, filter (passesFilters ?f) ?ps][1 := Array_sort ?cmp (filter (passesFilters ?f) ?ps)])"
      using ny assms by (simp add: filterProjects_store_def alloc_def Let_def pf nth_append list_update_append)
    then show ?thesis
      by (intro exI[of _ "length h + 1"] exI[of _ "[?ps, filter (passesFilters ?f) ?ps]"]) simp
  next
    case yn
    have "filterProjects_store H this h =
            (this\<lparr>filteredProjects_ref := length h + 1\<rparr>,
             h @ [?ps, filter (passesFilters ?f) ?ps][1 := Array_sort ?cmp (filter (passesFilters ?f) ?ps)])"
      using yn assms by (simp add: filterProjects_store_def alloc_def Let_def pf nth_append list_update_append)
    then show ?thesis
      by (intro exI[of _ "length h + 1"] exI[of _ "[?ps, filter (passesFilters ?f) ?ps]"]) simp
  next
    case yy
    have "filterProjects_store H this h =
            (this\<lparr>filteredProjects_ref := length h + 2\<rparr>,
             h @ [?ps, filter (matchesSearch (toLowerCase (search ?f))) ?ps, filter (passesFilters ?f) ?ps]
                 [2 := Array_sort ?cmp (filter (passesFilters ?f) ?ps)])"
      using yy assms by (simp add: filterProjects_store_def alloc_def Let_def pf nth_append list_update_append)
    then show ?thesis
      by (intro exI[of _ "length h + 2"]
            exI[of _ "[?ps, filter (matchesSearch (toLowerCase (search ?f))) ?ps, filter (passesFilters ?f) ?ps]"]) simp
  qed
qed

lemma store_example_run:
  "map (map stars) (snd (filterProjects_store sample_host refs_example store_example)) =
     [[5, 50, 1], [], [50, 5, 1]] \<and>
   filteredProjects_ref (fst (filterProjects_store sample_host refs_example store_example)) = 2"
  by code_simp

text \<open>
  C9. \<open>filterProjects\<close> replaces the field \<open>filteredProjects\<close> and nothing else of the object
  state. With the arrays held by reference: the reference in \<open>projects\<close> stays the same,
  the array it points to and every other array that existed before the call keep their
  contents, and the sorted result is a new array, whose contents are the list the
  value-level model computes.
\<close>

theorem filterProjects_leaves_the_collection_alone:
  assumes "projects_ref this < length h"
  shows "(case filterProjects_store H this h of
            (this', h') \<Rightarrow>
              projects_ref this' = projects_ref this \<and>
              currentFilters_val this' = currentFilters_val this \<and>
              h' ! projects_ref this' = h ! projects_ref this \<and>
              (\<forall>r < length h. h' ! r = h ! r) \<and>
              length h \<le> filteredProjects_ref this' \<and>
              filteredProjects_ref this' < length h' \<and>
              (\<forall>s. projects s = h ! projects_ref this \<and>
                    currentFilters s = currentFilters_val this \<longrightarrow>
                    h' ! filteredProjects_ref this' = filteredProjects (filterProjects H s))) \<and>
         filterProjects H s = s\<lparr>filteredProjects := filteredProjects (filterProjects H s)\<rparr> \<and>
         projects (filterProjects H s) = projects s"
proof -
  obtain r news where
    eq: "filterProjects_store H this h =
           (this\<lparr>filteredProjects_ref := r\<rparr>,
            h @ news[r - length h :=
                       Array_sort (compareProjects H (sortBy (currentFilters_val this)))
                         (filter (passesFilters (currentFilters_val this))
                            (h ! projects_ref this))])"
    and lo: "length h \<le> r" and hi: "r < length h + length news"
    using filterProjects_store_result [OF assms] by blast
  have frame: "projects (filterProjects H s) = projects s"
    by (simp add: filterProjects_def Let_def)
  show ?thesis
    using assms lo hi frame filterProjects_frame [of H s]
    by (simp add: eq nth_append filterProjects_filtered)
qed

theorem filterProjects_leaves_the_collection_alone_witness:
  "projects_ref refs_example < length store_example \<and>
   snd (filterProjects_store sample_host refs_example store_example) ! 0 = store_example ! 0 \<and>
   map (map stars) (snd (filterProjects_store sample_host refs_example store_example)) =
     [[5, 50, 1], [], [50, 5, 1]]"
proof -
  have h: "projects_ref refs_example < length store_example"
    by (simp add: refs_example_def store_example_def)
  have z: "projects_ref refs_example = 0"
    by (simp add: refs_example_def)
  have "snd (filterProjects_store sample_host refs_example store_example) !
          projects_ref refs_example = store_example ! projects_ref refs_example"
    using filterProjects_leaves_the_collection_alone [OF h, of sample_host stars_example]
    by (auto simp add: case_prod_beta)
  with h z store_example_run show ?thesis by simp
qed

subsection \<open>Rendering and pagination\<close>

lemma Array_slice_window:
  assumes "0 \<le> start" and "0 \<le> n"
  shows "Array_slice start (start + n) xs = take (nat n) (drop (nat start) xs)"
proof -
  let ?len = "int (length xs)"
  consider (beyond) "?len \<le> start" | (inside) "start < ?len" "start + n \<le> ?len"
    | (over) "start < ?len" "?len < start + n"
    by linarith
  then show ?thesis
  proof cases
    case beyond
    with assms show ?thesis
      by (simp add: Array_slice_def Let_def min_def)
  next
    case inside
    with assms show ?thesis
      by (simp add: Array_slice_def Let_def min_def)
  next
    case over
    with assms have "length (drop (nat start) xs) \<le> nat n"
      and "length (drop (nat start) xs) \<le> nat (?len - start)"
      by simp_all
    with over assms show ?thesis
      by (simp add: Array_slice_def Let_def min_def)
  qed
qed

lemma updateStats_fields:
  "projects (updateStats H s) = projects s"
  "filteredProjects (updateStats H s) = filteredProjects s"
  "currentFilters (updateStats H s) = currentFilters s"
  "currentPage (updateStats H s) = currentPage s"
  "itemsPerPage (updateStats H s) = itemsPerPage s"
  "totalPages (updateStats H s) = totalPages s"
  "projects_grid (page (updateStats H s)) = projects_grid (page s)"
  "pagination_display (page (updateStats H s)) = pagination_display (page s)"
  by (simp_all add: updateStats_def Let_def)

lemma renderProjects_fields:
  "projects (renderProjects H s) = projects s"
  "filteredProjects (renderProjects H s) = filteredProjects s"
  "currentFilters (renderProjects H s) = currentFilters s"
  "currentPage (renderProjects H s) = currentPage s"
  "itemsPerPage (renderProjects H s) = itemsPerPage s"
  "totalPages (renderProjects H s) = totalPages s"
  "pagination_display (page (renderProjects H s)) = pagination_display (page s)"
  by (simp_all add: renderProjects_def Let_def updateStats_fields)

lemma renderPagination_fields:
  "projects (renderPagination s) = projects s"
  "filteredProjects (renderPagination s) = filteredProjects s"
  "currentFilters (renderPagination s) = currentFilters s"
  "currentPage (renderPagination s) = currentPage s"
  "itemsPerPage (renderPagination s) = itemsPerPage s"
  "projects_grid (page (renderPagination s)) = projects_grid (page s)"
  "total_projects (page (renderPagination s)) = total_projects (page s)"
  "total_stars (page (renderPagination s)) = total_stars (page s)"
  "total_forks (page (renderPagination s)) = total_forks (page s)"
  "total_languages (page (renderPagination s)) = total_languages (page s)"
  by (simp_all add: renderPagination_def Let_def)

lemma renderPagination_totalPages:
  "totalPages (renderPagination s) =
     (if filteredProjects s = [] then totalPages s
      else \<lceil>real (length (filteredProjects s)) / real_of_int (itemsPerPage s)\<rceil>)"
  by (simp add: renderPagination_def Let_def Math_ceil_div_def)

lemma renderPagination_display:
  "pagination_display (page (renderPagination s)) =
     (if filteredProjects s = [] then ''none'' else ''flex'')"
  by (simp add: renderPagination_def Let_def)

lemma renderProjects_grid:
  assumes "0 < itemsPerPage s" and "1 \<le> currentPage s"
    and "projects s = [] \<longrightarrow> filteredProjects s = []"
  shows "projects_grid (page (renderProjects H s)) =
           take (nat (itemsPerPage s))
             (drop (nat ((currentPage s - 1) * itemsPerPage s)) (filteredProjects s))"
proof -
  have "0 \<le> (currentPage s - 1) * itemsPerPage s" and "0 \<le> itemsPerPage s"
    using assms by simp_all
  from Array_slice_window [OF this, of "filteredProjects s"] assms(3) show ?thesis
    by (simp add: renderProjects_def Let_def updateStats_fields)
qed

lemma filterProjects_fields:
  "projects (filterProjects H s) = projects s"
  "currentFilters (filterProjects H s) = currentFilters s"
  "currentPage (filterProjects H s) = currentPage s"
  "itemsPerPage (filterProjects H s) = itemsPerPage s"
  "totalPages (filterProjects H s) = totalPages s"
  "page (filterProjects H s) = page s"
  by (simp_all add: filterProjects_def Let_def)

lemma filterAndRender_fields:
  "projects (filterAndRender H s) = projects s"
  "filteredProjects (filterAndRender H s) = filteredProjects (filterProjects H s)"
  "currentFilters (filterAndRender H s) = currentFilters s"
  "currentPage (filterAndRender H s) = 1"
  "itemsPerPage (filterAndRender H s) = itemsPerPage s"
  by (simp_all add: filterAndRender_def renderPagination_fields renderProjects_fields
      filterProjects_fields)

lemma goToPage_fields:
  "projects (goToPage H p s) = projects s"
  "filteredProjects (goToPage H p s) = filteredProjects s"
  "currentFilters (goToPage H p s) = currentFilters s"
  "currentPage (goToPage H p s) = p"
  "itemsPerPage (goToPage H p s) = itemsPerPage s"
  by (simp_all add: goToPage_def renderPagination_fields renderProjects_fields)

lemma goToPage_totalPages:
  "totalPages (goToPage H p s) =
     (if filteredProjects s = [] then totalPages s
      else \<lceil>real (length (filteredProjects s)) / real_of_int (itemsPerPage s)\<rceil>)"
  by (simp add: goToPage_def renderPagination_totalPages renderProjects_fields)

lemma goToPage_grid:
  assumes "0 < itemsPerPage s" and "1 \<le> p"
    and "projects s = [] \<longrightarrow> filteredProjects s = []"
  shows "projects_grid (page (goToPage H p s)) =
           take (nat (itemsPerPage s)) (drop (nat ((p - 1) * itemsPerPage s)) (filteredProjects s))"
  using renderProjects_grid [of "s\<lparr>currentPage := p\<rparr>" H] assms
  by (simp add: goToPage_def renderPagination_fields)

lemma filterAndRender_totalPages:
  "totalPages (filterAndRender H s) =
     (if filteredProjects (filterProjects H s) = [] then totalPages s
      else \<lceil>real (length (filteredProjects (filterProjects H s))) / real_of_int (itemsPerPage s)\<rceil>)"
  by (simp add: filterAndRender_def renderPagination_totalPages renderProjects_fields
      filterProjects_fields)

lemma filterAndRender_display:
  "pagination_display (page (filterAndRender H s)) =
     (if filteredProjects (filterProjects H s) = [] then ''none'' else ''flex'')"
  by (simp add: filterAndRender_def renderPagination_display renderProjects_fields)

lemma filterProjects_empty_collection:
  "projects s = [] \<Longrightarrow> filteredProjects (filterProjects H s) = []"
  by (simp add: filterProjects_filtered Array_sort_def)

lemma filterAndRender_grid:
  assumes "0 < itemsPerPage s"
  shows "projects_grid (page (filterAndRender H s)) =
           take (nat (itemsPerPage s)) (filteredProjects (filterProjects H s))"
  using renderProjects_grid [of "(filterProjects H s)\<lparr>currentPage := 1\<rparr>" H] assms
    filterProjects_empty_collection [of s H]
  by (simp add: filterAndRender_def renderPagination_fields filterProjects_fields)

lemma filterAndRender_unpaged_projects:
  "projects (filterAndRender_unpaged H s) = projects s"
  by (simp add: filterAndRender_unpaged_def renderProjects_unpaged_def filterProjects_fields)

lemma filterAndRender_unpaged_grid:
  "projects_grid (page (filterAndRender_unpaged H s)) = filteredProjects (filterProjects H s)"
  using filterProjects_empty_collection [of s H]
  by (simp add: filterAndRender_unpaged_def renderProjects_unpaged_def filterProjects_fields)

lemma no_match_example_run:
  "totalPages no_match_example = 1 \<and> filteredProjects no_match_example = [] \<and>
   itemsPerPage no_match_example = 12 \<and> projects no_match_example \<noteq> [] \<and>
   pagination_display (page no_match_example) = ''none''"
  by code_simp

lemma twenty_five_example_run:
  "itemsPerPage twenty_five_example = 12 \<and> length (filteredProjects twenty_five_example) = 25 \<and>
   projects twenty_five_example \<noteq> [] \<and> stars (filteredProjects twenty_five_example ! 24) = 0 \<and>
   totalPages twenty_five_example = 3"
  by code_simp

lemma twenty_five_example_unpaged_run:
  "length (projects_grid (page (filterAndRender_unpaged sample_host twenty_five_example))) = 25 \<and>
   length (filteredProjects (filterAndRender_unpaged sample_host twenty_five_example)) = 25"
  by code_simp

text \<open>
  The stored page count is not always the ceiling of the quotient. After a load of three
  records a search that matches none of them leaves an empty filtered list;
  \<open>renderPagination\<close> then hides the control and returns before it assigns
  \<open>totalPages\<close>, which stays 1 while the quotient is 0. And in the variant without
  pagination the grid after a recomputation over 25 records is not the slice of the first
  12: it holds all 25.
\<close>

theorem page_count_counterexample:
  "totalPages no_match_example \<noteq>
     \<lceil>real (length (filteredProjects no_match_example)) /
      real_of_int (itemsPerPage no_match_example)\<rceil> \<and>
   projects_grid (page (filterAndRender_unpaged sample_host twenty_five_example)) \<noteq>
     take 12 (filteredProjects (filterAndRender_unpaged sample_host twenty_five_example))"
proof -
  have "length (projects_grid (page (filterAndRender_unpaged sample_host twenty_five_example))) \<noteq>
        length (take 12 (filteredProjects
                  (filterAndRender_unpaged sample_host twenty_five_example)))"
    using twenty_five_example_unpaged_run by simp
  then have "projects_grid (page (filterAndRender_unpaged sample_host twenty_five_example)) \<noteq>
     take 12 (filteredProjects (filterAndRender_unpaged sample_host twenty_five_example))"
    by metis
  with no_match_example_run show ?thesis by simp
qed

text \<open>
  C4, for the paginated variant. Whenever the filtered list is not empty the page count is
  the ceiling of its length over \<open>itemsPerPage\<close>; when it is empty the control is hidden
  and the stored count keeps its value. The grid of page \<open>p\<close> holds the records at the
  positions from \<open>(p - 1) * itemsPerPage\<close> up to, and not including,
  \<open>p * itemsPerPage\<close>; after a recomputation it holds the first page. With 12 per page
  and 25 filtered records there are 3 pages and page 3 holds the record at index 24 alone.
  The four listeners for search, clearing the search, language and sort leave the current
  page at 1; \<open>goToPage\<close> sets the page and leaves the filtered list, the filter state and
  the collection as they are. The variant without pagination puts the whole filtered list
  into the grid.
\<close>

theorem pagination_of_the_filtered_list:
  assumes "0 < itemsPerPage this" and "1 \<le> p"
    and "projects this = [] \<longrightarrow> filteredProjects this = []"
  shows "(filteredProjects this \<noteq> [] \<longrightarrow>
            totalPages (goToPage H p this) =
              \<lceil>real (length (filteredProjects this)) / real_of_int (itemsPerPage this)\<rceil>) \<and>
         (filteredProjects (filterAndRender H this) \<noteq> [] \<longrightarrow>
            totalPages (filterAndRender H this) =
              \<lceil>real (length (filteredProjects (filterAndRender H this))) /
               real_of_int (itemsPerPage this)\<rceil> \<and>
            pagination_display (page (filterAndRender H this)) = ''flex'') \<and>
         (filteredProjects (filterAndRender H this) = [] \<longrightarrow>
            totalPages (filterAndRender H this) = totalPages this \<and>
            pagination_display (page (filterAndRender H this)) = ''none'') \<and>
         projects_grid (page (goToPage H p this)) =
           take (nat (itemsPerPage this))
             (drop (nat ((p - 1) * itemsPerPage this)) (filteredProjects this)) \<and>
         projects_grid (page (filterAndRender H this)) =
           take (nat (itemsPerPage this)) (filteredProjects (filterAndRender H this)) \<and>
         (itemsPerPage this = 12 \<and> length (filteredProjects this) = 25 \<longrightarrow>
            totalPages (goToPage H 3 this) = 3 \<and>
            projects_grid (page (goToPage H 3 this)) = [filteredProjects this ! 24]) \<and>
         currentPage (search_input_input H v this) = 1 \<and>
         currentPage (clear_search_click H this) = 1 \<and>
         currentPage (language_filter_change H v this) = 1 \<and>
         currentPage (sort_select_change H v this) = 1 \<and>
         currentPage (goToPage H p this) = p \<and>
         filteredProjects (goToPage H p this) = filteredProjects this \<and>
         currentFilters (goToPage H p this) = currentFilters this \<and>
         projects (goToPage H p this) = projects this \<and>
         projects_grid (page (filterAndRender_unpaged H this)) =
           filteredProjects (filterAndRender_unpaged H this)"
proof -
  have pages: "filteredProjects this \<noteq> [] \<longrightarrow>
            totalPages (goToPage H p this) =
              \<lceil>real (length (filteredProjects this)) / real_of_int (itemsPerPage this)\<rceil>"
    by (simp add: goToPage_totalPages)
  have recompute: "(filteredProjects (filterAndRender H this) \<noteq> [] \<longrightarrow>
            totalPages (filterAndRender H this) =
              \<lceil>real (length (filteredProjects (filterAndRender H this))) /
               real_of_int (itemsPerPage this)\<rceil> \<and>
            pagination_display (page (filterAndRender H this)) = ''flex'') \<and>
         (filteredProjects (filterAndRender H this) = [] \<longrightarrow>
            totalPages (filterAndRender H this) = totalPages this \<and>
            pagination_display (page (filterAndRender H this)) = ''none'')"
    by (simp add: filterAndRender_totalPages filterAndRender_display filterAndRender_fields)
  have slice: "projects_grid (page (goToPage H p this)) =
           take (nat (itemsPerPage this))
             (drop (nat ((p - 1) * itemsPerPage this)) (filteredProjects this))"
    using assms by (rule goToPage_grid)
  have first: "projects_grid (page (filterAndRender H this)) =
           take (nat (itemsPerPage this)) (filteredProjects (filterAndRender H this))"
    using assms(1) by (simp add: filterAndRender_grid filterAndRender_fields)
  have example: "itemsPerPage this = 12 \<and> length (filteredProjects this) = 25 \<longrightarrow>
            totalPages (goToPage H 3 this) = 3 \<and>
            projects_grid (page (goToPage H 3 this)) = [filteredProjects this ! 24]"
  proof
    assume a: "itemsPerPage this = 12 \<and> length (filteredProjects this) = 25"
    then have ne: "filteredProjects this \<noteq> []" by auto
    have "drop 24 (filteredProjects this) = [filteredProjects this ! 24]"
      using a Cons_nth_drop_Suc [of 24 "filteredProjects this"] by simp
    moreover have "projects_grid (page (goToPage H 3 this)) =
        take (nat (itemsPerPage this))
          (drop (nat ((3 - 1) * itemsPerPage this)) (filteredProjects this))"
      using assms(1,3) by (intro goToPage_grid) simp_all
    ultimately show "totalPages (goToPage H 3 this) = 3 \<and>
            projects_grid (page (goToPage H 3 this)) = [filteredProjects this ! 24]"
      using a ne by (simp add: goToPage_totalPages)
  qed
  have reset: "currentPage (search_input_input H v this) = 1 \<and>
         currentPage (clear_search_click H this) = 1 \<and>
         currentPage (language_filter_change H v this) = 1 \<and>
         currentPage (sort_select_change H v this) = 1"
    by (simp add: search_input_input_def clear_search_click_def language_filter_change_def
        sort_select_change_def filterAndRender_fields)
  have page_only: "currentPage (goToPage H p this) = p \<and>
         filteredProjects (goToPage H p this) = filteredProjects this \<and>
         currentFilters (goToPage H p this) = currentFilters this \<and>
         projects (goToPage H p this) = projects this"
    by (simp add: goToPage_fields)
  have unpaged: "projects_grid (page (filterAndRender_unpaged H this)) =
           filteredProjects (filterAndRender_unpaged H this)"
    by (simp add: filterAndRender_unpaged_grid)
      (simp add: filterAndRender_unpaged_def renderProjects_unpaged_def)
  from pages recompute slice first example reset page_only unpaged show ?thesis
    by blast
qed

theorem pagination_of_the_filtered_list_witness:
  "0 < itemsPerPage twenty_five_example \<and> (1::int) \<le> 3 \<and>
   length (filteredProjects twenty_five_example) = 25 \<and>
   totalPages (goToPage sample_host 3 twenty_five_example) = 3 \<and>
   map stars (projects_grid (page (goToPage sample_host 3 twenty_five_example))) = [0]"
proof -
  have h1: "0 < itemsPerPage twenty_five_example"
    and h3: "projects twenty_five_example = [] \<longrightarrow> filteredProjects twenty_five_example = []"
    using twenty_five_example_run by simp_all
  have h2: "(1::int) \<le> 3" by simp
  have run: "itemsPerPage twenty_five_example = 12 \<and>
             length (filteredProjects twenty_five_example) = 25"
    using twenty_five_example_run by simp
  from pagination_of_the_filtered_list [OF h1 h2 h3, of sample_host "[]"] run
  have "totalPages (goToPage sample_host 3 twenty_five_example) = 3 \<and>
        projects_grid (page (goToPage sample_host 3 twenty_five_example)) =
          [filteredProjects twenty_five_example ! 24]"
    by blast
  with h1 h2 twenty_five_example_run show ?thesis by simp
qed

subsection \<open>Statistics\<close>

lemma foldl_plus: "foldl (\<lambda>sum p. sum + f p) a ps = a + sum_list (map f ps)"
  for a :: int
  by (induction ps arbitrary: a) simp_all

lemma Set_values_foldl:
  "distinct acc \<Longrightarrow>
   distinct (foldl (\<lambda>acc x. if x \<in> set acc then acc else acc @ [x]) acc xs) \<and>
   set (foldl (\<lambda>acc x. if x \<in> set acc then acc else acc @ [x]) acc xs) = set acc \<union> set xs"
  by (induction xs arbitrary: acc) auto

lemma length_Set_values: "length (Set_values xs) = card (set xs)"
proof -
  from Set_values_foldl [of "[]" xs]
  have d: "distinct (Set_values xs)" and s: "set (Set_values xs) = set xs"
    by (simp_all add: Set_values_def)
  from distinct_card [OF d] s show ?thesis by simp
qed

lemma truthy_iff: "truthy x \<longleftrightarrow> (\<exists>l. x = Some l \<and> l \<noteq> [])"
  by (cases x) auto

lemma truthy_languages:
  "set (filter truthy (map project.language ps)) =
     Some ` {l. l \<noteq> [] \<and> (\<exists>p \<in> set ps. project.language p = Some l)}"
proof (intro set_eqI iffI)
  fix x
  assume "x \<in> set (filter truthy (map project.language ps))"
  then obtain p where p: "p \<in> set ps" "x = project.language p" "truthy x"
    by auto
  then obtain l where "x = Some l" "l \<noteq> []"
    using truthy_iff by blast
  with p have "l \<in> {l. l \<noteq> [] \<and> (\<exists>p \<in> set ps. project.language p = Some l)}"
    by (intro CollectI conjI bexI [of _ p]) simp_all
  with \<open>x = Some l\<close>
  show "x \<in> Some ` {l. l \<noteq> [] \<and> (\<exists>p \<in> set ps. project.language p = Some l)}"
    by (rule image_eqI)
next
  fix x
  assume "x \<in> Some ` {l. l \<noteq> [] \<and> (\<exists>p \<in> set ps. project.language p = Some l)}"
  then obtain l p where "x = Some l" "l \<noteq> []" "p \<in> set ps" "project.language p = Some l"
    by auto
  then show "x \<in> set (filter truthy (map project.language ps))"
    by force
qed

lemma count_languages:
  "length (Set_values (filter truthy (map project.language ps))) =
     card {l. l \<noteq> [] \<and> (\<exists>p \<in> set ps. project.language p = Some l)}"
  unfolding length_Set_values truthy_languages by (simp add: card_image)

lemma updateStats_shown:
  "statistics_shown (page (updateStats H s)) =
     (formatNumber H (real (length (projects s))),
      formatNumber H (real_of_int (sum_list (map stars (projects s)))),
      formatNumber H (real_of_int (sum_list (map forks (projects s)))),
      card {l. l \<noteq> [] \<and> (\<exists>p \<in> set (projects s). project.language p = Some l)})"
  by (simp add: statistics_shown_def updateStats_def Let_def foldl_plus count_languages)

lemma renderPagination_shown:
  "statistics_shown (page (renderPagination s)) = statistics_shown (page s)"
  by (simp add: statistics_shown_def renderPagination_fields)

lemma renderProjects_shown:
  "statistics_shown (page (renderProjects H s)) =
     (if projects s \<noteq> [] \<and> filteredProjects s \<noteq> [] then statistics_shown (page (updateStats H s))
      else statistics_shown (page s))"
  by (simp add: renderProjects_def Let_def updateStats_shown) (simp add: statistics_shown_def)

lemma renderProjects_unpaged_shown:
  "statistics_shown (page (renderProjects_unpaged s)) = statistics_shown (page s)"
  by (simp add: renderProjects_unpaged_def statistics_shown_def)

lemma filterAndRender_shown:
  "statistics_shown (page (filterAndRender H s)) =
     (if projects s \<noteq> [] \<and> filteredProjects (filterProjects H s) \<noteq> []
      then statistics_shown (page (updateStats H s)) else statistics_shown (page s))"
  by (simp add: filterAndRender_def renderPagination_shown renderProjects_shown
      filterProjects_fields updateStats_shown)

lemma filterAndRender_unpaged_shown:
  "statistics_shown (page (filterAndRender_unpaged H s)) = statistics_shown (page s)"
  by (simp add: filterAndRender_unpaged_def renderProjects_unpaged_shown filterProjects_fields)

lemma updateStats_writes:
  "statistics_writes (page (updateStats H s)) = Suc (statistics_writes (page s))"
  by (simp add: updateStats_def Let_def)

lemma renderProjects_writes:
  "statistics_writes (page (renderProjects H s)) =
     (if projects s \<noteq> [] \<and> filteredProjects s \<noteq> [] then Suc (statistics_writes (page s))
      else statistics_writes (page s))"
  by (simp add: renderProjects_def Let_def updateStats_writes)

lemma filterAndRender_writes:
  "statistics_writes (page (filterAndRender H s)) =
     (if projects s \<noteq> [] \<and> filteredProjects (filterProjects H s) \<noteq> []
      then Suc (statistics_writes (page s)) else statistics_writes (page s))"
  by (simp add: filterAndRender_def renderPagination_def Let_def renderProjects_writes
      filterProjects_fields)

lemma filterAndRender_unpaged_writes:
  "statistics_writes (page (filterAndRender_unpaged H s)) = statistics_writes (page s)"
  by (simp add: filterAndRender_unpaged_def renderProjects_unpaged_def filterProjects_fields)

lemma current_updateStats: "statistics_current H (updateStats H s)"
  by (simp add: statistics_current_def updateStats_shown updateStats_fields)

lemma current_filterProjects:
  "statistics_current H s \<Longrightarrow> statistics_current H (filterProjects H s)"
  by (simp add: statistics_current_def updateStats_shown filterProjects_fields)

lemma current_currentPage:
  "statistics_current H s \<Longrightarrow> statistics_current H (s\<lparr>currentPage := p\<rparr>)"
  by (simp add: statistics_current_def updateStats_shown)

lemma current_renderProjects:
  "statistics_current H s \<Longrightarrow> statistics_current H (renderProjects H s)"
  by (simp add: statistics_current_def updateStats_shown renderProjects_shown
      renderProjects_fields)

lemma current_renderProjects_unpaged:
  "statistics_current H s \<Longrightarrow> statistics_current H (renderProjects_unpaged s)"
proof -
  have "projects (renderProjects_unpaged s) = projects s"
    by (simp add: renderProjects_unpaged_def)
  then show "statistics_current H s \<Longrightarrow> statistics_current H (renderProjects_unpaged s)"
    by (simp add: statistics_current_def updateStats_shown renderProjects_unpaged_shown)
qed

lemma current_renderPagination:
  "statistics_current H s \<Longrightarrow> statistics_current H (renderPagination s)"
  by (simp add: statistics_current_def updateStats_shown renderPagination_shown
      renderPagination_fields)

lemma current_filterAndRender:
  "statistics_current H s \<Longrightarrow> statistics_current H (filterAndRender H s)"
  unfolding filterAndRender_def
  by (intro current_renderPagination current_renderProjects current_currentPage
      current_filterProjects)

lemma current_filterAndRender_unpaged:
  "statistics_current H s \<Longrightarrow> statistics_current H (filterAndRender_unpaged H s)"
  unfolding filterAndRender_unpaged_def
  by (intro current_renderProjects_unpaged current_filterProjects)

lemma current_goToPage:
  "statistics_current H s \<Longrightarrow> statistics_current H (goToPage H p s)"
  unfolding goToPage_def
  by (intro current_renderPagination current_renderProjects current_currentPage)

lemma init_current: "init H r s = Started s' \<Longrightarrow> statistics_current H s'"
proof -
  assume a: "init H r s = Started s'"
  obtain l where l: "loadProjects r s = Inr l"
    using loadProjects_returns by blast
  from a obtain t where "l = Loaded t"
    and "s' = renderPagination (renderProjects H (filterProjects H (updateStats H t)))"
    by (cases l) (auto simp: init_def l)
  then show ?thesis
    by (simp add: current_renderPagination current_renderProjects current_filterProjects
        current_updateStats)
qed

lemma init_unpaged_current: "init_unpaged H r s = Started s' \<Longrightarrow> statistics_current H s'"
proof -
  assume a: "init_unpaged H r s = Started s'"
  obtain l where l: "loadProjects r s = Inr l"
    using loadProjects_returns by blast
  from a obtain t where "l = Loaded t"
    and "s' = renderProjects_unpaged (filterProjects H (updateStats H t))"
    by (cases l) (auto simp: init_unpaged_def l)
  then show ?thesis
    by (simp add: current_renderProjects_unpaged current_filterProjects current_updateStats)
qed

lemma retry_current: "retry H r s = Started s' \<Longrightarrow> statistics_current H s'"
proof -
  assume a: "retry H r s = Started s'"
  obtain l where l: "loadProjects r (s\<lparr>page := (page s)
      \<lparr>error_state_display := ''none'', main_display := ''block''\<rparr>\<rparr>) = Inr l"
    using loadProjects_returns by blast
  from a obtain t where "l = Loaded t" and "s' = filterAndRender H (updateStats H t)"
    by (cases l) (auto simp: retry_def Let_def l)
  then show ?thesis
    by (simp add: current_filterAndRender current_updateStats)
qed

lemma retry_unpaged_current: "retry_unpaged H r s = Started s' \<Longrightarrow> statistics_current H s'"
proof -
  assume a: "retry_unpaged H r s = Started s'"
  obtain l where l: "loadProjects r (s\<lparr>page := (page s)
      \<lparr>error_state_display := ''none'', main_display := ''block''\<rparr>\<rparr>) = Inr l"
    using loadProjects_returns by blast
  from a obtain t where "l = Loaded t" and "s' = filterAndRender_unpaged H (updateStats H t)"
    by (cases l) (auto simp: retry_unpaged_def Let_def l)
  then show ?thesis
    by (simp add: current_filterAndRender_unpaged current_updateStats)
qed

lemma three_example_started:
  "init sample_host (Response True (Parsed (JObject (Records
        [sample_project ''CFW'' ''SciresM'' (Some ''atmosphere firmware'') (Some ''C++'') 5,
         sample_project ''hekate'' ''CTCaer'' None (Some ''C'') 7,
         sample_project ''nx-hbmenu'' ''switchbrew'' (Some []) None 9]))))
       (new_NXProjectsTracker sample_document) = Started three_example \<and>
   init_unpaged sample_host (Response True (Parsed (JObject (Records
        [sample_project ''CFW'' ''SciresM'' (Some ''atmosphere firmware'') (Some ''C++'') 5,
         sample_project ''hekate'' ''CTCaer'' None (Some ''C'') 7,
         sample_project ''nx-hbmenu'' ''switchbrew'' (Some []) None 9]))))
       (new_NXProjectsTracker sample_document) = Started three_example_unpaged"
  by (simp add: three_example_def three_example_unpaged_def init_def init_unpaged_def
      loadProjects_cases)

lemma three_example_run:
  "statistics_writes (page three_example) = 2 \<and>
   statistics_writes (page (search_input_input sample_host ''zzz'' three_example)) = 2 \<and>
   statistics_writes (page three_example_unpaged) = 1 \<and>
   statistics_writes
     (page (search_input_input_unpaged sample_host ''hekate'' three_example_unpaged)) = 1 \<and>
   map name (projects_grid
     (page (search_input_input_unpaged sample_host ''hekate'' three_example_unpaged))) =
     [''hekate''] \<and>
   map name (projects_grid (page (search_input_input sample_host ''hekate'' three_example))) =
     [''hekate''] \<and>
   total_languages (page (search_input_input sample_host ''hekate'' three_example)) = 2 \<and>
   statistics_writes (page (search_input_input sample_host ''hekate'' three_example)) = 3"
  by code_simp

text \<open>
  A recomputation does not always write the statistics. After \<open>init\<close> has loaded three
  records, a search without a match returns from \<open>renderProjects\<close> of the paginated variant
  before \<open>updateStats\<close>; and in the variant without pagination a search that keeps one
  record renders it and does not write the statistics either. In both the number of
  writes is after the recomputation what it was before.
\<close>

theorem statistics_update_counterexample:
  "\<not> statistics_writes (page three_example) <
       statistics_writes (page (search_input_input sample_host ''zzz'' three_example)) \<and>
   \<not> statistics_writes (page three_example_unpaged) <
       statistics_writes
         (page (search_input_input_unpaged sample_host ''hekate'' three_example_unpaged))"
  using three_example_run by simp

text \<open>
  C5. What \<open>updateStats\<close> writes is the number of records, the sum of stars, the sum of
  forks (each through \<open>formatNumber\<close>) and the number of distinct non-empty languages of
  the full collection; the filtered list and the filter state have no part in it. The
  recomputation of the paginated variant writes these values, once, when it renders at
  least one card and does not write otherwise; the recomputation of the variant without
  pagination never writes. \<open>init\<close> and \<open>retry\<close> write them whenever they do not end in the
  \<open>catch\<close> clause, so from then on the statistics on the page are those of the full
  collection after every recomputation and every change of page.
\<close>

theorem statistics_of_the_full_collection:
  "statistics_shown (page (updateStats H s)) =
     (formatNumber H (real (length (projects s))),
      formatNumber H (real_of_int (sum_list (map stars (projects s)))),
      formatNumber H (real_of_int (sum_list (map forks (projects s)))),
      card {l. l \<noteq> [] \<and> (\<exists>p \<in> set (projects s). project.language p = Some l)}) \<and>
   statistics_shown (page (updateStats H (s\<lparr>filteredProjects := fp, currentFilters := f\<rparr>))) =
     statistics_shown (page (updateStats H s)) \<and>
   statistics_writes (page (updateStats H s)) = Suc (statistics_writes (page s)) \<and>
   statistics_shown (page (filterAndRender H s)) =
     (if projects s \<noteq> [] \<and> filteredProjects (filterProjects H s) \<noteq> []
      then statistics_shown (page (updateStats H s)) else statistics_shown (page s)) \<and>
   statistics_writes (page (filterAndRender H s)) =
     (if projects s \<noteq> [] \<and> filteredProjects (filterProjects H s) \<noteq> []
      then Suc (statistics_writes (page s)) else statistics_writes (page s)) \<and>
   statistics_shown (page (filterAndRender_unpaged H s)) = statistics_shown (page s) \<and>
   statistics_writes (page (filterAndRender_unpaged H s)) = statistics_writes (page s) \<and>
   (init H r s = Started s' \<longrightarrow> statistics_current H s') \<and>
   (init_unpaged H r s = Started s' \<longrightarrow> statistics_current H s') \<and>
   (retry H r s = Started s' \<longrightarrow> statistics_current H s') \<and>
   (retry_unpaged H r s = Started s' \<longrightarrow> statistics_current H s') \<and>
   (statistics_current H s \<longrightarrow>
      statistics_current H (filterAndRender H s) \<and>
      statistics_current H (filterAndRender_unpaged H s) \<and>
      statistics_current H (goToPage H p s))"
proof -
  have keep: "statistics_current H s \<longrightarrow>
      statistics_current H (filterAndRender H s) \<and>
      statistics_current H (filterAndRender_unpaged H s) \<and>
      statistics_current H (goToPage H p s)"
    by (simp add: current_filterAndRender current_filterAndRender_unpaged current_goToPage)
  have starts: "(init H r s = Started s' \<longrightarrow> statistics_current H s') \<and>
   (init_unpaged H r s = Started s' \<longrightarrow> statistics_current H s') \<and>
   (retry H r s = Started s' \<longrightarrow> statistics_current H s') \<and>
   (retry_unpaged H r s = Started s' \<longrightarrow> statistics_current H s')"
    using init_current init_unpaged_current retry_current retry_unpaged_current by blast
  have "statistics_shown (page (updateStats H (s\<lparr>filteredProjects := fp, currentFilters := f\<rparr>))) =
     statistics_shown (page (updateStats H s))"
    by (simp add: updateStats_shown)
  with keep starts show ?thesis
    by (simp add: updateStats_shown [symmetric] filterAndRender_shown
        filterAndRender_unpaged_shown updateStats_writes filterAndRender_writes
        filterAndRender_unpaged_writes)
qed

theorem statistics_of_the_full_collection_witness:
  "statistics_current sample_host three_example \<and>
   statistics_current sample_host (filterAndRender sample_host three_example) \<and>
   statistics_current sample_host (goToPage sample_host 1 three_example) \<and>
   statistics_current sample_host three_example_unpaged \<and>
   statistics_current sample_host (filterAndRender_unpaged sample_host three_example_unpaged)"
proof -
  have a: "statistics_current sample_host three_example"
    using statistics_of_the_full_collection [where H = sample_host and s' = three_example]
      three_example_started by blast
  have b: "statistics_current sample_host three_example_unpaged"
    using statistics_of_the_full_collection
            [where H = sample_host and s' = three_example_unpaged]
      three_example_started by blast
  show ?thesis
    using a b
      statistics_of_the_full_collection [where H = sample_host and s = three_example and p = 1]
      statistics_of_the_full_collection [where H = sample_host and s = three_example_unpaged]
    by blast
qed

end
